theory Spec2Isabelle
  imports Complex_Main "HOL-Library.Char_ord" "HOL-Library.List_Lexorder" "HOL-Library.Log_Nat"
    "HOL-Library.Product_Lexorder"
begin

section \<open>JavaScript numbers as the sensor delivers them\<close>

text \<open>
  A reading \<open>earValue\<close> is a JavaScript number: a finite value, \<open>Infinity\<close>,
  \<open>-Infinity\<close> or \<open>NaN\<close>. The comparison \<open>a < b\<close> of the language is false
  as soon as one side is \<open>NaN\<close>. The numbers the alarm hook computes with (the
  threshold, the polling interval, the accumulator) are finite: they are rationals here,
  a double being the rational it stands for. The hook is given twice below, with the sums
  taken exactly and with each result rounded to a double as the engine rounds it; sums of
  whole numbers of seconds, and of halves or quarters, are the same in both.
\<close>

datatype jsnum = Num rat | PosInf | NegInf | NaN

fun js_less :: "jsnum \<Rightarrow> jsnum \<Rightarrow> bool" where
  "js_less NaN b = False"
| "js_less a NaN = False"
| "js_less (Num a) (Num b) = (a < b)"
| "js_less (Num a) PosInf = True"
| "js_less (Num a) NegInf = False"
| "js_less PosInf b = False"
| "js_less NegInf (Num b) = True"
| "js_less NegInf PosInf = True"
| "js_less NegInf NegInf = False"

section \<open>The drowsiness alarm hook (useDrowsinessAlarm)\<close>

text \<open>
  The hook holds two React states, \<open>showAlarm\<close> and \<open>eyesClosedDuration\<close>, and
  two refs, \<open>eyesClosedCounterRef\<close> and \<open>alarmTriggeredRef\<close>. The field
  \<open>console\<close> records the durations written by \<open>console.log\<close> in the branch that
  triggers the alarm: one entry for each activation of the alarm.
\<close>

record alarm =
  showAlarm :: bool
  eyesClosedDuration :: int
  eyesClosedCounter :: rat
  alarmTriggered :: bool
  console :: "int list"

definition initialAlarm :: alarm where
  "initialAlarm =
     \<lparr>showAlarm = False, eyesClosedDuration = 0, eyesClosedCounter = 0,
      alarmTriggered = False, console = []\<rparr>"

definition checkDrowsiness :: "rat \<Rightarrow> rat \<Rightarrow> alarm \<Rightarrow> bool \<Rightarrow> jsnum \<Rightarrow> alarm" where
  "checkDrowsiness thresholdSeconds pollingInterval s isDrowsy earValue =
     (if isDrowsy \<and> js_less earValue (Num (1 / 4)) then
        (let counter = eyesClosedCounter s + pollingInterval / 1000;
             duration = \<lfloor>counter\<rfloor>;
             s1 = s\<lparr>eyesClosedCounter := counter\<rparr>
         in if thresholdSeconds \<le> of_int duration \<and> \<not> alarmTriggered s then
              s1\<lparr>eyesClosedDuration := duration, showAlarm := True,
                 alarmTriggered := True, console := console s @ [duration]\<rparr>
            else if thresholdSeconds \<le> of_int duration then
              s1\<lparr>eyesClosedDuration := duration\<rparr>
            else s1)
      else s\<lparr>eyesClosedCounter := 0, alarmTriggered := False\<rparr>)"

definition dismissAlarm :: "alarm \<Rightarrow> alarm" where
  "dismissAlarm s = s\<lparr>showAlarm := False, alarmTriggered := False\<rparr>"

definition resetAlarm :: "alarm \<Rightarrow> alarm" where
  "resetAlarm s =
     s\<lparr>eyesClosedCounter := 0, alarmTriggered := False, showAlarm := False,
       eyesClosedDuration := 0\<rparr>"

text \<open>What a caller of the hook can do, and a session as a list of such calls.\<close>

datatype action = Tick bool jsnum | Dismiss | Reset

fun act :: "rat \<Rightarrow> rat \<Rightarrow> alarm \<Rightarrow> action \<Rightarrow> alarm" where
  "act T P s (Tick isDrowsy earValue) = checkDrowsiness T P s isDrowsy earValue"
| "act T P s Dismiss = dismissAlarm s"
| "act T P s Reset = resetAlarm s"


text \<open>The number of closed-eye ticks the specification feeds: \<open>ceil(T / \<Delta>t)\<close>.\<close>

definition ticksToThreshold :: "rat \<Rightarrow> rat \<Rightarrow> nat" where
  "ticksToThreshold T P = nat \<lceil>T / (P / 1000)\<rceil>"

text \<open>A closed-eye tick: \<open>isDrowsy\<close> with a reading below 0.25.\<close>

fun closedEye :: "action \<Rightarrow> bool" where
  "closedEye (Tick isDrowsy earValue) = (isDrowsy \<and> js_less earValue (Num (1 / 4)))"
| "closedEye Dismiss = False"
| "closedEye Reset = False"

text \<open>
  \<open>checkDrowsiness\<close> above adds \<open>pollingInterval / 1000\<close> to the accumulator as a
  rational number. The engine computes the quotient and the sum in binary64 and rounds each
  of them to the nearest double, ties to even. \<open>toDouble\<close> is that rounding for a number
  in the normal range: 53 significant bits, with \<open>exponent x\<close> the exponent of the
  leading bit (overflow and subnormal numbers are out of the reach of a session of ticks).
  \<open>checkDrowsiness_ieee\<close> is the tick with the two roundings in place; \<open>Math.floor\<close>
  and the comparison with the threshold are exact on doubles. The two definitions agree on
  every tick whose quotient and sum are doubles (lemma \<open>ieee_exact_step\<close>).
  \<open>exactTicks P n\<close> says that the first \<open>n\<close> multiples of \<open>\<Delta>t = P / 1000\<close> are doubles.
\<close>

definition exponent :: "rat \<Rightarrow> int" where
  "exponent x = (if 1 \<le> \<bar>x\<bar> then bitlen \<lfloor>\<bar>x\<bar>\<rfloor> - 1 else - bitlen (\<lceil>1 / \<bar>x\<bar>\<rceil> - 1))"

definition roundEven :: "rat \<Rightarrow> int" where
  "roundEven x =
     (let f = \<lfloor>x\<rfloor>; r = x - of_int f
      in if r < 1 / 2 then f else if 1 / 2 < r then f + 1 else if even f then f else f + 1)"

definition toDouble :: "rat \<Rightarrow> rat" where
  "toDouble x =
     (if x = 0 then 0
      else (let u = 2 powi (exponent x - 52) in of_int (roundEven (x / u)) * u))"

definition isDouble :: "rat \<Rightarrow> bool" where
  "isDouble x \<longleftrightarrow>
     toDouble x = x \<and> \<bar>x\<bar> < 2 ^ 1024 \<and> (x = 0 \<or> 2 powi (- 1022) \<le> \<bar>x\<bar>)"

definition checkDrowsiness_ieee :: "rat \<Rightarrow> rat \<Rightarrow> alarm \<Rightarrow> bool \<Rightarrow> jsnum \<Rightarrow> alarm" where
  "checkDrowsiness_ieee thresholdSeconds pollingInterval s isDrowsy earValue =
     (if isDrowsy \<and> js_less earValue (Num (1 / 4)) then
        (let counter = toDouble (eyesClosedCounter s + toDouble (pollingInterval / 1000));
             duration = \<lfloor>counter\<rfloor>;
             s1 = s\<lparr>eyesClosedCounter := counter\<rparr>
         in if thresholdSeconds \<le> of_int duration \<and> \<not> alarmTriggered s then
              s1\<lparr>eyesClosedDuration := duration, showAlarm := True,
                 alarmTriggered := True, console := console s @ [duration]\<rparr>
            else if thresholdSeconds \<le> of_int duration then
              s1\<lparr>eyesClosedDuration := duration\<rparr>
            else s1)
      else s\<lparr>eyesClosedCounter := 0, alarmTriggered := False\<rparr>)"

fun act_ieee :: "rat \<Rightarrow> rat \<Rightarrow> alarm \<Rightarrow> action \<Rightarrow> alarm" where
  "act_ieee T P s (Tick isDrowsy earValue) = checkDrowsiness_ieee T P s isDrowsy earValue"
| "act_ieee T P s Dismiss = dismissAlarm s"
| "act_ieee T P s Reset = resetAlarm s"

fun run_ieee :: "rat \<Rightarrow> rat \<Rightarrow> alarm \<Rightarrow> action list \<Rightarrow> alarm" where
  "run_ieee T P s [] = s"
| "run_ieee T P s (a # as) = run_ieee T P (act_ieee T P s a) as"

definition exactTicks :: "rat \<Rightarrow> nat \<Rightarrow> bool" where
  "exactTicks P n \<longleftrightarrow> (\<forall>j. 1 \<le> j \<and> j \<le> n \<longrightarrow> isDouble (of_nat j * (P / 1000)))"

section \<open>Dates of the JavaScript runtime\<close>

text \<open>
  A \<open>Date\<close> object holds a time value, milliseconds since the epoch, or \<open>NaN\<close>
  (an Invalid Date, \<open>None\<close> here). The runtime supplies what the repository does not
  define: \<open>Date.parse\<close> on timestamp strings, the offset of the viewer's local time,
  and the current time. The local calendar fields are computed from the time value as
  ECMAScript prescribes (\<open>HourFromTime\<close>, \<open>YearFromTime\<close>, \<open>MonthFromTime\<close>,
  \<open>DateFromTime\<close>), here through the days-to-civil-date conversion of the proleptic
  Gregorian calendar.
\<close>

record runtime =
  date_parse :: "string \<Rightarrow> int option"
  tz_offset :: "int \<Rightarrow> int"
  time_now :: int

type_synonym date = "int option"

definition new_Date :: "runtime \<Rightarrow> string \<Rightarrow> date" where
  "new_Date rt s = date_parse rt s"

definition localTime :: "runtime \<Rightarrow> int \<Rightarrow> int" where
  "localTime rt t = t + tz_offset rt t"

definition civil :: "int \<Rightarrow> int \<times> int \<times> int" where
  "civil days =
     (let z = days + 719468;
          era = z div 146097;
          doe = z mod 146097;
          yoe = (doe - doe div 1460 + doe div 36524 - doe div 146096) div 365;
          doy = doe - (365 * yoe + yoe div 4 - yoe div 100);
          mp = (5 * doy + 2) div 153;
          d = doy - (153 * mp + 2) div 5 + 1;
          m = (if mp < 10 then mp + 3 else mp - 9);
          y = yoe + era * 400
      in (if m \<le> 2 then y + 1 else y, m, d))"

definition getFullYear :: "runtime \<Rightarrow> date \<Rightarrow> int option" where
  "getFullYear rt d = map_option (\<lambda>t. fst (civil (localTime rt t div 86400000))) d"

definition getMonth :: "runtime \<Rightarrow> date \<Rightarrow> int option" where
  "getMonth rt d = map_option (\<lambda>t. fst (snd (civil (localTime rt t div 86400000))) - 1) d"

definition getDate :: "runtime \<Rightarrow> date \<Rightarrow> int option" where
  "getDate rt d = map_option (\<lambda>t. snd (snd (civil (localTime rt t div 86400000)))) d"

definition getHours :: "runtime \<Rightarrow> date \<Rightarrow> nat option" where
  "getHours rt d = map_option (\<lambda>t. nat ((localTime rt t div 3600000) mod 24)) d"

definition getTime :: "date \<Rightarrow> int option" where
  "getTime d = d"

text \<open>Numbers to strings, as \<open>String(n)\<close> and template literals print whole numbers.\<close>

fun digits :: "nat \<Rightarrow> string" where
  "digits n = (if n < 10 then [''0123456789'' ! n]
               else digits (n div 10) @ [''0123456789'' ! (n mod 10)])"

declare digits.simps [simp del]

definition numberToString :: "int option \<Rightarrow> string" where
  "numberToString v =
     (case v of None \<Rightarrow> ''NaN''
      | Some i \<Rightarrow> if i < 0 then CHR ''-'' # digits (nat (- i)) else digits (nat i))"

definition padStart :: "nat \<Rightarrow> char \<Rightarrow> string \<Rightarrow> string" where
  "padStart n c s = replicate (n - length s) c @ s"

definition formatDateKey :: "runtime \<Rightarrow> date \<Rightarrow> string" where
  "formatDateKey rt date =
     (let y = getFullYear rt date;
          m = padStart 2 (CHR ''0'') (numberToString (map_option (\<lambda>v. v + 1) (getMonth rt date)));
          d = padStart 2 (CHR ''0'') (numberToString (getDate rt date))
      in numberToString y @ ''-'' @ m @ ''-'' @ d)"

definition todayKey :: "runtime \<Rightarrow> string" where
  "todayKey rt = formatDateKey rt (Some (time_now rt))"

section \<open>Records of the push channel\<close>

text \<open>
  A \<open>Record<string, X>\<close> is the list of its entries in the order in which the runtime
  enumerates them; \<open>Object.values\<close> is the list of the second components. Deleting a key
  keeps the order of the others. A record field that is tested for truth, as
  \<open>timestamp\<close> and \<open>emotion\<close> are, is a string, and the empty string stands for every
  falsy value of it (a missing field too).
\<close>

type_synonym 'a js_record = "(string \<times> 'a) list"

definition Object_values :: "'a js_record \<Rightarrow> 'a list" where
  "Object_values m = map snd m"

definition without :: "string \<Rightarrow> 'a js_record \<Rightarrow> 'a js_record" where
  "without k m = filter (\<lambda>kv. fst kv \<noteq> k) m"

record Stamped =
  timestamp :: string

record AlertData = Stamped +
  type :: string
  alert_level :: string
  ear :: jsnum
  mar :: jsnum
  message :: string
  duration :: jsnum

record emotion_scores_t =
  happy :: jsnum
  sad :: jsnum
  neutral :: jsnum

record EmotionData = Stamped +
  emotion :: string
  emotion_scores :: emotion_scores_t

datatype js_error = TypeError

text \<open>
  \<open>forEach\<close> with a callback that updates the enclosing function's variables: the
  variables are the state, and an exception thrown by the callback ends the loop.
\<close>

fun forEach :: "('s \<Rightarrow> 'a \<Rightarrow> js_error + 's) \<Rightarrow> 's \<Rightarrow> 'a list \<Rightarrow> js_error + 's" where
  "forEach f s [] = Inr s"
| "forEach f s (x # xs) = (case f s x of Inl e \<Rightarrow> Inl e | Inr s' \<Rightarrow> forEach f s' xs)"

section \<open>Statistics of a day (stats.tsx)\<close>

text \<open>
  \<open>DayStats\<close> and its hourly buckets share field names in the source; the fields of a
  bucket are \<open>hour\<close>, \<open>h_drowsy\<close>, \<open>h_yawn\<close> and \<open>h_total\<close> here. The counters start
  at 0 and are only incremented, so they are natural numbers.
\<close>

record HourBucket =
  hour :: nat
  h_drowsy :: nat
  h_yawn :: nat
  h_total :: nat

record DayStats =
  total :: nat
  drowsy :: nat
  yawn :: nat
  hourly :: "HourBucket list"

definition emptyHours :: "HourBucket list" where
  "emptyHours = map (\<lambda>i. \<lparr>hour = i, h_drowsy = 0, h_yawn = 0, h_total = 0\<rparr>) [0..<24]"

text \<open>
  The callback of \<open>computeDayStats\<close>. \<open>hours[h]\<close> is \<open>undefined\<close> when \<open>h\<close> is
  \<open>NaN\<close> (the hour of an Invalid Date) or no index of the array, and reading
  \<open>.total\<close> of it throws a TypeError.
\<close>

definition countAlert :: "runtime \<Rightarrow> string \<Rightarrow> DayStats \<Rightarrow> AlertData \<Rightarrow> js_error + DayStats" where
  "countAlert rt dayKey st a =
     (if timestamp a = [] then Inr st
      else
        (let d = new_Date rt (timestamp a) in
         if formatDateKey rt d \<noteq> dayKey then Inr st
         else
           (case getHours rt d of
              None \<Rightarrow> Inl TypeError
            | Some h \<Rightarrow>
                if length (hourly st) \<le> h then Inl TypeError
                else
                  (let hours1 = (hourly st)[h := (hourly st ! h)\<lparr>h_total := h_total (hourly st ! h) + 1\<rparr>];
                       st1 = st\<lparr>total := total st + 1, hourly := hours1\<rparr>
                   in if type a = ''drowsiness'' then
                        Inr (st1\<lparr>drowsy := drowsy st + 1,
                                hourly := hours1[h := (hours1 ! h)\<lparr>h_drowsy := h_drowsy (hours1 ! h) + 1\<rparr>]\<rparr>)
                      else if type a = ''yawning'' then
                        Inr (st1\<lparr>yawn := yawn st + 1,
                                hourly := hours1[h := (hours1 ! h)\<lparr>h_yawn := h_yawn (hours1 ! h) + 1\<rparr>]\<rparr>)
                      else Inr st1))))"

definition computeDayStats :: "runtime \<Rightarrow> AlertData js_record \<Rightarrow> string \<Rightarrow> js_error + DayStats" where
  "computeDayStats rt alerts dayKey =
     forEach (countAlert rt dayKey)
       \<lparr>total = 0, drowsy = 0, yawn = 0, hourly = emptyHours\<rparr> (Object_values alerts)"

text \<open>
  The day rates of the screen. The counters are whole numbers; the quotient is taken as an
  exact rational.
\<close>

definition daySafeRate :: "DayStats \<Rightarrow> rat" where
  "daySafeRate dayStats =
     (if 0 < total dayStats then
        (of_nat (total dayStats) - of_nat (drowsy dayStats) - of_nat (yawn dayStats))
          / of_nat (total dayStats) * 100
      else 100)"

definition dayDrowsyRate :: "DayStats \<Rightarrow> rat" where
  "dayDrowsyRate dayStats =
     (if 0 < total dayStats then of_nat (drowsy dayStats) / of_nat (total dayStats) * 100 else 0)"

definition dayYawnRate :: "DayStats \<Rightarrow> rat" where
  "dayYawnRate dayStats =
     (if 0 < total dayStats then of_nat (yawn dayStats) / of_nat (total dayStats) * 100 else 0)"

section \<open>Emotions of a day (stats.tsx)\<close>

text \<open>
  \<open>counts\<close> is a plain object keyed by emotion label: the list of its own properties in the
  order of their creation, each holding a number or a text. Three traits of a plain object
  are modelled. A read \<open>counts[em]\<close> of a name that is not an own property finds the member
  of \<open>Object.prototype\<close> of that name, a function or an object, which is truthy, and
  \<open>(counts[em] || 0) + 1\<close> is then the text of that member followed by \<open>1\<close> (the text of
  a built-in function is the one most engines print; only that it is a non-empty text that
  is no numeral matters below). An assignment to \<open>__proto__\<close> of a value that is not an
  object changes nothing. \<open>Object.entries\<close> lists the array indices first, the canonical
  decimal numerals below \<open>2^32 - 1\<close> in ascending order, and then the other names in the
  order of their creation.
  \<open>toLowerCase\<close> is taken on the letters A to Z. The fields \<open>total\<close> and
  \<open>hourly\<close> of \<open>EmotionDayStats\<close> are \<open>em_total\<close> and \<open>em_hourly\<close> here, and a
  bucket has \<open>em_hour\<close>, \<open>em_hour_counts\<close> and \<open>em_hour_total\<close>.
\<close>

datatype jsval = Number nat | Text string

type_synonym js_object = "(string \<times> jsval) list"

definition native :: "string \<Rightarrow> string" where
  "native f = ''function '' @ f @ ''() { [native code] }''"

definition Object_prototype :: "(string \<times> string) list" where
  "Object_prototype =
     [(''constructor'', native ''Object''),
      (''__defineGetter__'', native ''__defineGetter__''),
      (''__defineSetter__'', native ''__defineSetter__''),
      (''hasOwnProperty'', native ''hasOwnProperty''),
      (''__lookupGetter__'', native ''__lookupGetter__''),
      (''__lookupSetter__'', native ''__lookupSetter__''),
      (''isPrototypeOf'', native ''isPrototypeOf''),
      (''propertyIsEnumerable'', native ''propertyIsEnumerable''),
      (''toString'', native ''toString''),
      (''valueOf'', native ''valueOf''),
      (''__proto__'', ''[object Object]''),
      (''toLocaleString'', native ''toLocaleString'')]"

definition getProperty :: "js_object \<Rightarrow> string \<Rightarrow> jsval option" where
  "getProperty obj k =
     (case map_of obj k of
        Some v \<Rightarrow> Some v
      | None \<Rightarrow> map_option Text (map_of Object_prototype k))"

fun setProperty :: "string \<Rightarrow> jsval \<Rightarrow> js_object \<Rightarrow> js_object" where
  "setProperty k v [] = [(k, v)]"
| "setProperty k v ((k', v') # obj) =
     (if k' = k then (k, v) # obj else (k', v') # setProperty k v obj)"

text \<open>\<open>(v || 0) + 1\<close>: an absent value, 0 and the empty text are falsy.\<close>

definition orZeroPlusOne :: "jsval option \<Rightarrow> jsval" where
  "orZeroPlusOne v =
     (case v of
        None \<Rightarrow> Number 1
      | Some (Number c) \<Rightarrow> Number (c + 1)
      | Some (Text t) \<Rightarrow> if t = [] then Number 1 else Text (t @ ''1''))"

text \<open>\<open>counts[em] = (counts[em] || 0) + 1\<close>.\<close>

definition increment :: "string \<Rightarrow> js_object \<Rightarrow> js_object" where
  "increment em obj =
     (if em = ''__proto__'' then obj
      else setProperty em (orZeroPlusOne (getProperty obj em)) obj)"

fun parseDigits :: "nat \<Rightarrow> string \<Rightarrow> nat option" where
  "parseDigits n [] = Some n"
| "parseDigits n (c # cs) =
     (case map_of (zip ''0123456789'' [0, 1, 2, 3, 4, 5, 6, 7, 8, 9]) c of
        None \<Rightarrow> None
      | Some d \<Rightarrow> parseDigits (10 * n + d) cs)"

definition arrayIndex :: "string \<Rightarrow> nat option" where
  "arrayIndex s =
     (if s = [] \<or> (hd s = CHR ''0'' \<and> s \<noteq> ''0'') then None
      else
        (case parseDigits 0 s of
           None \<Rightarrow> None
         | Some n \<Rightarrow> if n < 4294967295 then Some n else None))"

definition Object_entries :: "js_object \<Rightarrow> (string \<times> jsval) list" where
  "Object_entries obj =
     map snd (sort_key fst
        (List.map_filter (\<lambda>kv. map_option (\<lambda>n. (n, kv)) (arrayIndex (fst kv))) obj))
     @ filter (\<lambda>kv. arrayIndex (fst kv) = None) obj"

definition lowerChar :: "char \<Rightarrow> char" where
  "lowerChar c =
     (case map_of (zip ''ABCDEFGHIJKLMNOPQRSTUVWXYZ'' ''abcdefghijklmnopqrstuvwxyz'') c of
        None \<Rightarrow> c | Some l \<Rightarrow> l)"

definition toLowerCase :: "string \<Rightarrow> string" where
  "toLowerCase s = map lowerChar s"

record EmotionHourBucket =
  em_hour :: nat
  em_hour_counts :: js_object
  em_hour_total :: nat

record EmotionDayStats =
  em_total :: nat
  counts :: js_object
  em_hourly :: "EmotionHourBucket list"
  dominant :: string

definition emptyEmotionHours :: "EmotionHourBucket list" where
  "emptyEmotionHours = map (\<lambda>i. \<lparr>em_hour = i, em_hour_counts = [], em_hour_total = 0\<rparr>) [0..<24]"

definition countEmotion ::
  "runtime \<Rightarrow> string \<Rightarrow> EmotionDayStats \<Rightarrow> EmotionData \<Rightarrow> js_error + EmotionDayStats" where
  "countEmotion rt dayKey st e =
     (if timestamp e = [] \<or> emotion e = [] then Inr st
      else
        (let d = new_Date rt (timestamp e) in
         if formatDateKey rt d \<noteq> dayKey then Inr st
         else
           (let em = toLowerCase (emotion e) in
            case getHours rt d of
              None \<Rightarrow> Inl TypeError
            | Some h \<Rightarrow>
                if length (em_hourly st) \<le> h then Inl TypeError
                else
                  Inr (st\<lparr>em_total := em_total st + 1,
                          counts := increment em (counts st),
                          em_hourly := (em_hourly st)[h := (em_hourly st ! h)
                            \<lparr>em_hour_total := em_hour_total (em_hourly st ! h) + 1,
                             em_hour_counts := increment em (em_hour_counts (em_hourly st ! h))\<rparr>]\<rparr>))))"

text \<open>
  The scan for the dominant emotion, over \<open>Object.entries(counts)\<close>: a strictly greater
  count replaces the current one. A text held by \<open>counts\<close> is the text of a member of
  \<open>Object.prototype\<close> followed by 1s, no numeral: \<open>c > maxCount\<close> compares with NaN
  and is false.
\<close>

definition scanDominant :: "string \<times> nat \<Rightarrow> string \<times> jsval \<Rightarrow> string \<times> nat" where
  "scanDominant dm ec =
     (case snd ec of
        Number c \<Rightarrow> if snd dm < c then (fst ec, c) else dm
      | Text t \<Rightarrow> dm)"

definition findDominant :: "js_object \<Rightarrow> string" where
  "findDominant cs = fst (foldl scanDominant (''neutral'', 0) (Object_entries cs))"

definition computeEmotionDayStats ::
  "runtime \<Rightarrow> EmotionData js_record \<Rightarrow> string \<Rightarrow> js_error + EmotionDayStats" where
  "computeEmotionDayStats rt emotions dayKey =
     (case forEach (countEmotion rt dayKey)
             \<lparr>em_total = 0, counts = [], em_hourly = emptyEmotionHours, dominant = ''neutral''\<rparr>
             (Object_values emotions) of
        Inl e \<Rightarrow> Inl e
      | Inr st \<Rightarrow> Inr (st\<lparr>dominant := findDominant (counts st)\<rparr>))"

section \<open>The days of the day picker (stats.tsx)\<close>

text \<open>A \<open>Set\<close> of strings in insertion order; \<open>add\<close> of a member changes nothing.\<close>

definition set_add :: "string \<Rightarrow> string list \<Rightarrow> string list" where
  "set_add x xs = (if x \<in> set xs then xs else xs @ [x])"

definition addDay :: "runtime \<Rightarrow> string list \<Rightarrow> 'a Stamped_scheme \<Rightarrow> string list" where
  "addDay rt daySet a =
     (if timestamp a = [] then daySet
      else set_add (formatDateKey rt (new_Date rt (timestamp a))) daySet)"

definition getAvailableDays ::
  "runtime \<Rightarrow> AlertData js_record \<Rightarrow> EmotionData js_record \<Rightarrow> string list" where
  "getAvailableDays rt alerts emotions =
     (let daySet = foldl (addDay rt) (foldl (addDay rt) [] (Object_values alerts)) (Object_values emotions);
          sorted = rev (sort daySet)
      in if todayKey rt \<in> set sorted then sorted else todayKey rt # sorted)"





definition selectedDay :: "runtime \<Rightarrow> string list \<Rightarrow> nat \<Rightarrow> string" where
  "selectedDay rt availableDays selectedDayIdx =
     (if selectedDayIdx < length availableDays \<and> availableDays ! selectedDayIdx \<noteq> []
      then availableDays ! selectedDayIdx else todayKey rt)"

section \<open>Notions of the statements\<close>

text \<open>
  The day keys the records of a mapping carry, in enumeration order; the lower-case labels
  of the emotion records of a day; the first occurrences of a list, in order; and the count
  that \<open>counts\<close> holds for a label, 0 when it holds none (no own property, or a text).
\<close>

definition recordKeys :: "runtime \<Rightarrow> 'a Stamped_scheme list \<Rightarrow> string list" where
  "recordKeys rt xs =
     map (\<lambda>a. formatDateKey rt (new_Date rt (timestamp a))) (filter (\<lambda>a. timestamp a \<noteq> []) xs)"

definition dayKeys :: "runtime \<Rightarrow> AlertData js_record \<Rightarrow> EmotionData js_record \<Rightarrow> string list" where
  "dayKeys rt alerts emotions =
     recordKeys rt (Object_values alerts) @ recordKeys rt (Object_values emotions)"



definition countOf :: "js_object \<Rightarrow> string \<Rightarrow> nat" where
  "countOf cs em = (case map_of cs em of Some (Number c) \<Rightarrow> c | _ \<Rightarrow> 0)"



definition wfValue :: "string \<Rightarrow> jsval \<Rightarrow> bool" where
  "wfValue k v =
     (case v of
        Number c \<Rightarrow> map_of Object_prototype k = None
      | Text t \<Rightarrow> map_of Object_prototype k \<noteq> None \<and> t \<noteq> [])"

definition wfCounts :: "js_object \<Rightarrow> bool" where
  "wfCounts cs \<longleftrightarrow> list_all (\<lambda>kv. wfValue (fst kv) (snd kv)) cs"

definition wfEmotionStats :: "EmotionDayStats \<Rightarrow> bool" where
  "wfEmotionStats st \<longleftrightarrow>
     wfCounts (counts st)
     \<and> (\<forall>i<length (em_hourly st). wfCounts (em_hour_counts (em_hourly st ! i)))"

text \<open>What every result of \<open>computeDayStats\<close> satisfies.\<close>

definition dayStatsInv :: "DayStats \<Rightarrow> bool" where
  "dayStatsInv st \<longleftrightarrow>
     drowsy st + yawn st \<le> total st \<and> length (hourly st) = 24
     \<and> sum_list (map h_total (hourly st)) = total st"

text \<open>Counter by counter comparison of two results, hour by hour.\<close>

definition bucketLe :: "HourBucket \<Rightarrow> HourBucket \<Rightarrow> bool" where
  "bucketLe a b \<longleftrightarrow> h_total a \<le> h_total b \<and> h_drowsy a \<le> h_drowsy b \<and> h_yawn a \<le> h_yawn b"

definition statsLe :: "DayStats \<Rightarrow> DayStats \<Rightarrow> bool" where
  "statsLe a b \<longleftrightarrow>
     total a \<le> total b \<and> drowsy a \<le> drowsy b \<and> yawn a \<le> yawn b
     \<and> length (hourly a) = length (hourly b)
     \<and> (\<forall>i<length (hourly b). bucketLe (hourly a ! i) (hourly b ! i))"

definition countsLe :: "js_object \<Rightarrow> js_object \<Rightarrow> bool" where
  "countsLe as bs \<longleftrightarrow> (\<forall>em. countOf as em \<le> countOf bs em)"

definition emotionBucketLe :: "EmotionHourBucket \<Rightarrow> EmotionHourBucket \<Rightarrow> bool" where
  "emotionBucketLe a b \<longleftrightarrow>
     em_hour_total a \<le> em_hour_total b \<and> countsLe (em_hour_counts a) (em_hour_counts b)"

definition emotionStatsLe :: "EmotionDayStats \<Rightarrow> EmotionDayStats \<Rightarrow> bool" where
  "emotionStatsLe a b \<longleftrightarrow>
     em_total a \<le> em_total b \<and> countsLe (counts a) (counts b)
     \<and> length (em_hourly a) = length (em_hourly b)
     \<and> (\<forall>i<length (em_hourly b). emotionBucketLe (em_hourly a ! i) (em_hourly b ! i))"

section \<open>A viewer for the examples\<close>

text \<open>
  A viewer in UTC at 2024-05-01 10:15 whose \<open>Date.parse\<close> knows two timestamps; every
  other string, \<open>garbage\<close> among them, gives an Invalid Date.
\<close>

definition viewer :: runtime where
  "viewer =
     \<lparr>date_parse = map_of [(''2024-05-01T10:15:00'', 1714558500000),
                            (''2024-05-02T09:00:00'', 1714640400000)],
      tz_offset = (\<lambda>t. 0),
      time_now = 1714558500000\<rparr>"

definition alertAt :: "string \<Rightarrow> string \<Rightarrow> AlertData" where
  "alertAt ty ts =
     \<lparr>timestamp = ts, type = ty, alert_level = ''warning'', ear = Num (1 / 5),
      mar = Num (3 / 10), message = ''alert'', duration = Num 4\<rparr>"

definition scenarioB :: "AlertData js_record" where
  "scenarioB =
     [(''a1'', alertAt ''drowsiness'' ''2024-05-01T10:15:00''),
      (''a2'', alertAt ''yawning'' ''2024-05-01T10:15:00''),
      (''a3'', alertAt ''drowsiness'' ''2024-05-02T09:00:00'')]"

definition emotionAt :: "string \<Rightarrow> string \<Rightarrow> EmotionData" where
  "emotionAt em ts =
     \<lparr>timestamp = ts, emotion = em,
      emotion_scores = \<lparr>happy = Num (1 / 2), sad = Num (1 / 4), neutral = Num (1 / 4)\<rparr>\<rparr>"

definition scenarioD :: "EmotionData js_record" where
  "scenarioD =
     [(''e1'', emotionAt ''Happy'' ''2024-05-01T10:15:00''),
      (''e2'', emotionAt ''sad'' ''2024-05-01T10:15:00''),
      (''e3'', emotionAt ''Sad'' ''2024-05-01T10:15:00''),
      (''e4'', emotionAt ''happy'' ''2024-05-01T10:15:00'')]"

section \<open>The mirror of the push channel (firebase.ts, use-firebase.ts)\<close>

text \<open>
  What the channel delivers to a subscription: a snapshot, whose value is \<open>null\<close> when
  nothing is stored, or an error with its message.
\<close>

datatype 'a channel_event = Snapshot "'a js_record option" | ChannelError string

text \<open>
  \<open>subscribeToAlerts\<close> and \<open>subscribeToEmotions\<close> install the same two handlers on
  their paths: \<open>callback(data || {})\<close> for a snapshot, and \<open>onError(error)\<close>, when given,
  for an error. The callbacks are state transformers of the subscriber.
\<close>

definition subscribeToAlerts ::
  "(AlertData js_record \<Rightarrow> 's \<Rightarrow> 's) \<Rightarrow> (string \<Rightarrow> 's \<Rightarrow> 's) option
   \<Rightarrow> AlertData channel_event \<Rightarrow> 's \<Rightarrow> 's" where
  "subscribeToAlerts callback onError ev s =
     (case ev of
        Snapshot dat \<Rightarrow> callback (case dat of None \<Rightarrow> [] | Some m \<Rightarrow> m) s
      | ChannelError msg \<Rightarrow> (case onError of None \<Rightarrow> s | Some h \<Rightarrow> h msg s))"

definition subscribeToEmotions ::
  "(EmotionData js_record \<Rightarrow> 's \<Rightarrow> 's) \<Rightarrow> (string \<Rightarrow> 's \<Rightarrow> 's) option
   \<Rightarrow> EmotionData channel_event \<Rightarrow> 's \<Rightarrow> 's" where
  "subscribeToEmotions callback onError ev s =
     (case ev of
        Snapshot dat \<Rightarrow> callback (case dat of None \<Rightarrow> [] | Some m \<Rightarrow> m) s
      | ChannelError msg \<Rightarrow> (case onError of None \<Rightarrow> s | Some h \<Rightarrow> h msg s))"

text \<open>
  \<open>Array.prototype.sort\<close> with a comparator, as a stable insertion sort. A comparator
  result is a number or \<open>NaN\<close> (\<open>None\<close>), and \<open>NaN\<close> counts as 0.
\<close>

fun insertBy :: "('a \<Rightarrow> 'a \<Rightarrow> int option) \<Rightarrow> 'a \<Rightarrow> 'a list \<Rightarrow> 'a list" where
  "insertBy cmp x [] = [x]"
| "insertBy cmp x (y # ys) =
     (if (case cmp x y of None \<Rightarrow> False | Some v \<Rightarrow> 0 < v) then y # insertBy cmp x ys
      else x # y # ys)"

definition sortBy :: "('a \<Rightarrow> 'a \<Rightarrow> int option) \<Rightarrow> 'a list \<Rightarrow> 'a list" where
  "sortBy cmp xs = foldr (insertBy cmp) xs []"

definition byTimestampDesc :: "runtime \<Rightarrow> string \<times> 'a Stamped_scheme \<Rightarrow> string \<times> 'a Stamped_scheme \<Rightarrow> int option" where
  "byTimestampDesc rt a b =
     (case (getTime (new_Date rt (timestamp (snd b))), getTime (new_Date rt (timestamp (snd a)))) of
        (Some tb, Some ta) \<Rightarrow> Some (tb - ta)
      | _ \<Rightarrow> None)"

definition getLatestAlert :: "runtime \<Rightarrow> AlertData js_record \<Rightarrow> (string \<times> AlertData) option" where
  "getLatestAlert rt alerts =
     (if alerts = [] then None
      else (case sortBy (byTimestampDesc rt) alerts of [] \<Rightarrow> None | x # xs \<Rightarrow> Some x))"

definition getLatestEmotion :: "runtime \<Rightarrow> EmotionData js_record \<Rightarrow> (string \<times> EmotionData) option" where
  "getLatestEmotion rt emotions =
     (if emotions = [] then None
      else (case sortBy (byTimestampDesc rt) emotions of [] \<Rightarrow> None | x # xs \<Rightarrow> Some x))"

record HookStatus =
  loading :: bool
  error :: "string option"

record AlertsHook = HookStatus +
  alerts :: "AlertData js_record"
  latestAlert :: "(string \<times> AlertData) option"

record EmotionsHook = HookStatus +
  emotions :: "EmotionData js_record"
  latestEmotion :: "(string \<times> EmotionData) option"

definition initialAlertsHook :: AlertsHook where
  "initialAlertsHook = \<lparr>loading = True, error = None, alerts = [], latestAlert = None\<rparr>"

definition initialEmotionsHook :: EmotionsHook where
  "initialEmotionsHook = \<lparr>loading = True, error = None, emotions = [], latestEmotion = None\<rparr>"

text \<open>The state of \<open>useFirebaseAlerts\<close> after the channel delivers an event.\<close>

definition useFirebaseAlerts :: "runtime \<Rightarrow> AlertData channel_event \<Rightarrow> AlertsHook \<Rightarrow> AlertsHook" where
  "useFirebaseAlerts rt =
     subscribeToAlerts
       (\<lambda>dat s. s\<lparr>alerts := dat, latestAlert := getLatestAlert rt dat, loading := False\<rparr>)
       (Some (\<lambda>msg s. s\<lparr>error := Some msg, loading := False\<rparr>))"

definition useFirebaseEmotions ::
  "runtime \<Rightarrow> EmotionData channel_event \<Rightarrow> EmotionsHook \<Rightarrow> EmotionsHook" where
  "useFirebaseEmotions rt =
     subscribeToEmotions
       (\<lambda>dat s. s\<lparr>emotions := dat, latestEmotion := getLatestEmotion rt dat, loading := False\<rparr>)
       (Some (\<lambda>msg s. s\<lparr>error := Some msg, loading := False\<rparr>))"

section \<open>The alarm: one trigger for each episode\<close>

lemma closed_below:
  assumes c: "closedEye a" and b: "\<not> T \<le> of_int \<lfloor>eyesClosedCounter s + P / 1000\<rfloor>"
  shows "act T P s a = s\<lparr>eyesClosedCounter := eyesClosedCounter s + P / 1000\<rparr>"
  using c b by (cases a) (simp_all add: checkDrowsiness_def Let_def)


lemma below_before:
  fixes T :: rat and P :: rat
  assumes P: "0 < P" and j: "j < nat \<lceil>T / (P / 1000)\<rceil>"
  shows "\<not> T \<le> of_int \<lfloor>of_nat j * (P / 1000)\<rfloor>"
proof -
  have d: "0 < P / 1000" using P by simp
  have "int j < \<lceil>T / (P / 1000)\<rceil>" using j by linarith
  then have "of_int (int j) < T / (P / 1000)" by (simp only: less_ceiling_iff)
  then have "of_nat j * (P / 1000) < T" using d by (simp add: pos_less_divide_eq)
  moreover have "of_int \<lfloor>of_nat j * (P / 1000)\<rfloor> \<le> of_nat j * (P / 1000)" by (rule of_int_floor_le)
  ultimately show ?thesis by linarith
qed

lemma reached_at:
  fixes P :: rat
  assumes P: "0 < P"
  shows "of_int T \<le> (of_int \<lfloor>of_nat (nat \<lceil>of_int T / (P / 1000)\<rceil>) * (P / 1000)\<rfloor> :: rat)"
proof -
  have d: "0 < P / 1000" using P by simp
  let ?n = "nat \<lceil>of_int T / (P / 1000)\<rceil>"
  have "of_int T / (P / 1000) \<le> of_int \<lceil>of_int T / (P / 1000)\<rceil>" by (rule le_of_int_ceiling)
  also have "\<dots> \<le> of_nat ?n" 
    by (metis nat_le_iff of_int_le_iff of_int_of_nat_eq order_refl)
  finally have "of_int T \<le> of_nat ?n * (P / 1000)" using d by (simp add: pos_divide_le_eq)
  then have "T \<le> \<lfloor>of_nat ?n * (P / 1000)\<rfloor>" by (simp only: le_floor_iff)
  then show ?thesis by simp
qed


lemma fire_step:
  assumes c: "js_less earValue (Num (1 / 4))" and r: "T \<le> of_int \<lfloor>eyesClosedCounter s + P / 1000\<rfloor>"
    and nt: "\<not> alarmTriggered s"
  shows "checkDrowsiness T P s True earValue =
     s\<lparr>eyesClosedCounter := eyesClosedCounter s + P / 1000,
       eyesClosedDuration := \<lfloor>eyesClosedCounter s + P / 1000\<rfloor>, showAlarm := True,
       alarmTriggered := True,
       console := console s @ [\<lfloor>eyesClosedCounter s + P / 1000\<rfloor>]\<rparr>"
  using c r nt by (simp add: checkDrowsiness_def Let_def)

lemma fire_act:
  assumes c: "closedEye a" and r: "T \<le> of_int \<lfloor>eyesClosedCounter s + P / 1000\<rfloor>"
    and nt: "\<not> alarmTriggered s"
  shows "act T P s a =
     s\<lparr>eyesClosedCounter := eyesClosedCounter s + P / 1000,
       eyesClosedDuration := \<lfloor>eyesClosedCounter s + P / 1000\<rfloor>, showAlarm := True,
       alarmTriggered := True,
       console := console s @ [\<lfloor>eyesClosedCounter s + P / 1000\<rfloor>]\<rparr>"
  using c r nt by (cases a) (simp_all add: fire_step)


lemma run_ieee_append: "run_ieee T P s (xs @ ys) = run_ieee T P (run_ieee T P s xs) ys"
  by (induction xs arbitrary: s) simp_all

lemma ieee_exact_step:
  assumes q: "toDouble (P / 1000) = P / 1000"
    and a: "toDouble (eyesClosedCounter s + P / 1000) = eyesClosedCounter s + P / 1000"
  shows "checkDrowsiness_ieee T P s isDrowsy earValue = checkDrowsiness T P s isDrowsy earValue"
  by (simp add: checkDrowsiness_ieee_def checkDrowsiness_def q a)

lemma ieee_exact_act:
  assumes q: "toDouble (P / 1000) = P / 1000"
    and a: "toDouble (eyesClosedCounter s + P / 1000) = eyesClosedCounter s + P / 1000"
  shows "act_ieee T P s x = act T P s x"
  by (cases x) (simp_all add: ieee_exact_step [OF q a])

lemma exactTicks_step: "exactTicks P n \<Longrightarrow> 1 \<le> n \<Longrightarrow> toDouble (P / 1000) = P / 1000"
  unfolding exactTicks_def isDouble_def by (metis mult_1 of_nat_1 order_refl)

lemma exactTicks_mono: "exactTicks P n \<Longrightarrow> m \<le> n \<Longrightarrow> exactTicks P m"
  unfolding exactTicks_def by (meson le_trans)

lemma exactTicks_sum:
  assumes e: "exactTicks P n" and k: "k < n"
  shows "toDouble (of_nat k * (P / 1000) + P / 1000) = of_nat k * (P / 1000) + P / 1000"
proof -
  have "isDouble (of_nat (Suc k) * (P / 1000))"
    using e k unfolding exactTicks_def by (metis Suc_leI le_add1 plus_1_eq_Suc)
  then have h: "toDouble (of_nat (Suc k) * (P / 1000)) = of_nat (Suc k) * (P / 1000)"
    unfolding isDouble_def by blast
  have eq: "of_nat (Suc k) * (P / 1000) = of_nat k * (P / 1000) + P / 1000"
    by (simp add: algebra_simps)
  show ?thesis using h unfolding eq .
qed

lemma run_ieee_closed_below:
  assumes c: "\<forall>a\<in>set ts. closedEye a"
    and e: "exactTicks P (length ts)"
    and z: "eyesClosedCounter s = 0"
    and b: "\<And>j. 1 \<le> j \<Longrightarrow> j \<le> length ts \<Longrightarrow> \<not> T \<le> of_int \<lfloor>of_nat j * (P / 1000)\<rfloor>"
  shows "run_ieee T P s ts = s\<lparr>eyesClosedCounter := of_nat (length ts) * (P / 1000)\<rparr>"
  using c e b
proof (induction ts rule: rev_induct)
  case Nil
  show ?case using z by simp
next
  case (snoc a ts)
  let ?s = "s\<lparr>eyesClosedCounter := of_nat (length ts) * (P / 1000)\<rparr>"
  have e': "exactTicks P (length ts)" by (rule exactTicks_mono [OF snoc.prems(2)]) simp
  have prev: "run_ieee T P s ts = ?s" using snoc.IH snoc.prems e' by simp
  have q: "toDouble (P / 1000) = P / 1000"
    by (rule exactTicks_step [OF snoc.prems(2)]) simp
  have sm: "toDouble (eyesClosedCounter ?s + P / 1000) = eyesClosedCounter ?s + P / 1000"
    using exactTicks_sum [OF snoc.prems(2), of "length ts"] by simp
  have cnt: "eyesClosedCounter ?s + P / 1000 = of_nat (length (ts @ [a])) * (P / 1000)"
    by (simp add: algebra_simps)
  have nb: "\<not> T \<le> of_int \<lfloor>eyesClosedCounter ?s + P / 1000\<rfloor>"
    unfolding cnt using snoc.prems(3) [of "length (ts @ [a])"] by simp
  have ca: "closedEye a" using snoc.prems(1) by simp
  have "run_ieee T P s (ts @ [a]) = act_ieee T P ?s a" by (simp add: run_ieee_append prev)
  also have "\<dots> = act T P ?s a" by (rule ieee_exact_act [OF q sm])
  also have "\<dots> = ?s\<lparr>eyesClosedCounter := eyesClosedCounter ?s + P / 1000\<rparr>"
    by (rule closed_below [OF ca nb])
  also have "\<dots> = s\<lparr>eyesClosedCounter := of_nat (length (ts @ [a])) * (P / 1000)\<rparr>"
    unfolding cnt by simp
  finally show ?case .
qed

text \<open>Whole numbers below \<open>2^53\<close> are doubles: ticks of whole seconds are exact.\<close>

lemma roundEven_int: "roundEven (of_int k) = k"
  by (simp add: roundEven_def)

lemma toDouble_int:
  assumes m: "0 < m" "m < 2 ^ 53"
  shows "toDouble (of_int m) = of_int m"
proof -
  let ?e = "bitlen m - 1"
  have ex: "exponent (of_int m) = ?e"
    using m(1) by (simp add: exponent_def)
  have b: "2 ^ nat ?e \<le> m" using bitlen_bounds [OF m(1)] by simp
  have "(2::int) ^ nat ?e < 2 ^ 53" using b m(2) by linarith
  then have "nat ?e < 53" by (simp only: power_strict_increasing_iff) 
  then have e52: "?e \<le> 52" by linarith
  define d where "d = nat (52 - ?e)"
  have u: "(2::rat) powi (?e - 52) = 1 / 2 ^ d"
    using e52 unfolding d_def by (simp add: power_int_def field_simps)
  have q: "(of_int m :: rat) / (1 / 2 ^ d) = of_int (m * 2 ^ d)" by simp
  have nz: "(of_int m :: rat) \<noteq> 0" using m(1) by simp
  have "toDouble (of_int m) =
      of_int (roundEven (of_int m / 2 powi (exponent (of_int m) - 52)))
        * 2 powi (exponent (of_int m) - 52)"
    unfolding toDouble_def Let_def using nz by (simp only: if_False)
  also have "\<dots> = of_int (roundEven (of_int m / (1 / 2 ^ d))) * (1 / 2 ^ d)"
    unfolding ex u ..
  also have "\<dots> = of_int (m * 2 ^ d) * (1 / 2 ^ d)"
    unfolding q roundEven_int ..
  also have "\<dots> = of_int m" by simp
  finally show ?thesis .
qed

lemma isDouble_int:
  assumes m: "0 < m" "m < 2 ^ 53"
  shows "isDouble (of_int m)"
proof -
  have 1: "\<bar>of_int m :: rat\<bar> < 2 ^ 1024"
  proof -
    have "(of_int m :: rat) < of_int (2 ^ 53)" using m(2) by (simp only: of_int_less_iff)
    also have "\<dots> \<le> 2 ^ 1024" by simp
    finally show ?thesis using m(1) by simp
  qed
  have "(2::rat) powi (- 1022) \<le> 1" by (simp add: power_int_minus field_simps)
  also have "(1::rat) \<le> \<bar>of_int m\<bar>" using m(1) by simp
  finally have 2: "(2::rat) powi (- 1022) \<le> \<bar>of_int m\<bar>" .
  show ?thesis using toDouble_int [OF m] 1 2 by (simp add: isDouble_def)
qed

lemma whole_seconds_exact:
  assumes k: "0 < k" and b: "int n * k < 2 ^ 53"
  shows "exactTicks (1000 * of_int k) n"
proof -
  have "isDouble (of_nat j * (1000 * of_int k / 1000))" if j: "1 \<le> j" "j \<le> n" for j
  proof -
    have pos: "0 < int j * k" using j(1) k by simp
    have "int j * k \<le> int n * k" using j(2) k by (simp add: mult_right_mono)
    then have lt: "int j * k < 2 ^ 53" using b by linarith
    have "(of_nat j * (1000 * of_int k / 1000) :: rat) = of_int (int j * k)" by simp
    then show ?thesis using isDouble_int [OF pos lt] by simp
  qed
  then show ?thesis by (simp add: exactTicks_def)
qed

text \<open>
  C1 (amended). For every whole-number threshold \<open>T \<ge> 1\<close> and every polling interval
  \<open>P > 0\<close> (milliseconds, \<open>\<Delta>t = P / 1000\<close>) such that the multiples
  \<open>\<Delta>t, 2 \<Delta>t, \<dots>, n \<Delta>t\<close> with \<open>n = ceil(T / \<Delta>t)\<close> are doubles: from any state whose
  accumulator is 0 and whose triggered flag is clear, feeding \<open>n\<close> closed-eye ticks and
  then one open-eye tick triggers the alarm exactly once, at closed tick \<open>n\<close> and not
  before (the first \<open>n - 1\<close> ticks change the accumulator only, and \<open>console\<close> gains one
  entry). The open tick resets the accumulator \<open>eyesClosedCounterRef\<close> to 0 and clears
  the triggered flag; it leaves \<open>showAlarm\<close> true and the exposed
  \<open>eyesClosedDuration\<close> at the value published when the alarm fired,
  \<open>floor(n * \<Delta>t) \<ge> T\<close>.
\<close>

theorem episode_triggers_once:
  fixes T :: int and P :: rat
  assumes T: "1 \<le> T" and P: "0 < P"
    and n: "length ts = ticksToThreshold (of_int T) P"
    and c: "\<forall>a\<in>set ts. closedEye a"
    and o: "\<not> closedEye (Tick isDrowsy earValue)"
    and e: "exactTicks P (length ts)"
    and z: "eyesClosedCounter s = 0" and nt: "\<not> alarmTriggered s"
  shows "run_ieee (of_int T) P s (butlast ts) =
           s\<lparr>eyesClosedCounter := of_nat (length ts - 1) * (P / 1000)\<rparr>
       \<and> run_ieee (of_int T) P s ts =
           s\<lparr>eyesClosedCounter := of_nat (length ts) * (P / 1000),
             eyesClosedDuration := \<lfloor>of_nat (length ts) * (P / 1000)\<rfloor>, showAlarm := True,
             alarmTriggered := True,
             console := console s @ [\<lfloor>of_nat (length ts) * (P / 1000)\<rfloor>]\<rparr>
       \<and> run_ieee (of_int T) P s (ts @ [Tick isDrowsy earValue]) =
           s\<lparr>eyesClosedCounter := 0,
             eyesClosedDuration := \<lfloor>of_nat (length ts) * (P / 1000)\<rfloor>, showAlarm := True,
             alarmTriggered := False,
             console := console s @ [\<lfloor>of_nat (length ts) * (P / 1000)\<rfloor>]\<rparr>
       \<and> T \<le> \<lfloor>of_nat (length ts) * (P / 1000)\<rfloor>"
proof -
  let ?T = "of_int T :: rat"
  let ?n = "length ts"
  have d: "0 < P / 1000" using P by simp
  have npos: "0 < ?n"
  proof -
    have "0 < ?T / (P / 1000)" using T d by simp
    then have "0 < \<lceil>?T / (P / 1000)\<rceil>" by (simp only: zero_less_ceiling)
    then show ?thesis by (simp add: n ticksToThreshold_def)
  qed
  then have ne: "ts \<noteq> []" by auto
  let ?cs = "butlast ts"
  let ?a = "last ts"
  have ts: "ts = ?cs @ [?a]" using ne by simp
  have lcs: "Suc (length ?cs) = ?n" using ne by simp
  have lcs': "length ?cs = ?n - 1" by simp
  have ccs: "\<forall>a\<in>set ?cs. closedEye a" using c by (meson in_set_butlastD)
  have ca: "closedEye ?a" using c ne by simp
  have ecs: "exactTicks P (length ?cs)" by (rule exactTicks_mono [OF e]) simp
  have below: "\<And>j. j \<le> length ?cs \<Longrightarrow> \<not> ?T \<le> of_int \<lfloor>of_nat j * (P / 1000)\<rfloor>"
    using below_before [OF P, of _ ?T] lcs n by (simp add: ticksToThreshold_def)
  let ?s = "s\<lparr>eyesClosedCounter := of_nat (length ?cs) * (P / 1000)\<rparr>"
  have before: "run_ieee ?T P s ?cs = ?s"
    by (rule run_ieee_closed_below [OF ccs ecs z]) (rule below)
  have q: "toDouble (P / 1000) = P / 1000"
    by (rule exactTicks_step [OF e]) (use npos in linarith)
  have sm: "toDouble (eyesClosedCounter ?s + P / 1000) = eyesClosedCounter ?s + P / 1000"
    using exactTicks_sum [OF e, of "length ?cs"] lcs by simp
  have cnt: "eyesClosedCounter ?s + P / 1000 = of_nat ?n * (P / 1000)"
    unfolding lcs [symmetric] by (simp add: algebra_simps)
  have reached: "?T \<le> of_int \<lfloor>of_nat ?n * (P / 1000)\<rfloor>"
    using reached_at [OF P, of T] by (simp add: n ticksToThreshold_def)
  have reached': "?T \<le> of_int \<lfloor>eyesClosedCounter ?s + P / 1000\<rfloor>"
    unfolding cnt by (rule reached)
  have nt': "\<not> alarmTriggered ?s" using nt by simp
  have at: "run_ieee ?T P s ts =
           s\<lparr>eyesClosedCounter := of_nat ?n * (P / 1000),
             eyesClosedDuration := \<lfloor>of_nat ?n * (P / 1000)\<rfloor>, showAlarm := True,
             alarmTriggered := True,
             console := console s @ [\<lfloor>of_nat ?n * (P / 1000)\<rfloor>]\<rparr>"
  proof -
    have "run_ieee ?T P s ts = run_ieee ?T P s (?cs @ [?a])" using ts by simp
    also have "\<dots> = act_ieee ?T P ?s ?a" by (simp add: run_ieee_append before)
    also have "\<dots> = act ?T P ?s ?a" by (rule ieee_exact_act [OF q sm])
    also have "\<dots> = s\<lparr>eyesClosedCounter := of_nat ?n * (P / 1000),
             eyesClosedDuration := \<lfloor>of_nat ?n * (P / 1000)\<rfloor>, showAlarm := True,
             alarmTriggered := True,
             console := console s @ [\<lfloor>of_nat ?n * (P / 1000)\<rfloor>]\<rparr>"
      unfolding fire_act [OF ca reached' nt'] cnt by simp
    finally show ?thesis .
  qed
  have c1: "run_ieee ?T P s ?cs = s\<lparr>eyesClosedCounter := of_nat (?n - 1) * (P / 1000)\<rparr>"
    using before lcs' by simp
  have o': "\<not> (isDrowsy \<and> js_less earValue (Num (1 / 4)))" using o by simp
  have c3: "run_ieee ?T P s (ts @ [Tick isDrowsy earValue]) =
           s\<lparr>eyesClosedCounter := 0,
             eyesClosedDuration := \<lfloor>of_nat ?n * (P / 1000)\<rfloor>, showAlarm := True,
             alarmTriggered := False,
             console := console s @ [\<lfloor>of_nat ?n * (P / 1000)\<rfloor>]\<rparr>"
    using o' by (auto simp add: run_ieee_append at checkDrowsiness_ieee_def)
  have c4: "T \<le> \<lfloor>of_nat ?n * (P / 1000)\<rfloor>"
    using reached by (simp only: of_int_le_iff)
  show ?thesis using c1 at c3 c4 by blast
qed

lemma toDouble_evals:
  "toDouble 1 = 1" "toDouble 2 = 2" "toDouble 3 = 3" "toDouble 4 = 4" "toDouble (1 / 2) = 1 / 2"
  by code_simp+

lemma scenarioA_exact: "exactTicks 1000 4"
proof -
  have "isDouble (of_nat j * (1000 / 1000))" if "1 \<le> j" "j \<le> 4" for j
  proof -
    from that have "j = 1 \<or> j = 2 \<or> j = 3 \<or> j = 4" by auto
    then show ?thesis by (auto simp add: isDouble_def toDouble_evals power_int_minus)
  qed
  then show ?thesis by (simp add: exactTicks_def)
qed

text \<open>
  Scenario A: threshold 4 s, polling every 1000 ms, four ticks with \<open>ear = 0.20\<close>, then an
  open tick. The alarm fires at tick 4; tick 5 resets the accumulator, not the exposed value.
\<close>

theorem episode_triggers_once_witness:
  "run_ieee 4 1000 initialAlarm (replicate 4 (Tick True (Num (1 / 5))) @ [Tick False (Num (1 / 5))]) =
     \<lparr>showAlarm = True, eyesClosedDuration = 4, eyesClosedCounter = 0,
      alarmTriggered = False, console = [4]\<rparr>
   \<and> run_ieee 4 1000 initialAlarm (replicate 3 (Tick True (Num (1 / 5)))) =
     \<lparr>showAlarm = False, eyesClosedDuration = 0, eyesClosedCounter = 3,
      alarmTriggered = False, console = []\<rparr>
   \<and> run_ieee 4 1000 initialAlarm (replicate 4 (Tick True (Num (1 / 5)))) =
     \<lparr>showAlarm = True, eyesClosedDuration = 4, eyesClosedCounter = 4,
      alarmTriggered = True, console = [4]\<rparr>"
proof -
  let ?ts = "replicate 4 (Tick True (Num (1 / 5)))"
  have n: "length ?ts = ticksToThreshold (of_int 4) 1000"
    by (simp add: ticksToThreshold_def)
  have c: "\<forall>a\<in>set ?ts. closedEye a" by simp
  have o: "\<not> closedEye (Tick False (Num (1 / 5)))" by simp
  have e: "exactTicks 1000 (length ?ts)" using scenarioA_exact by simp
  have z: "eyesClosedCounter initialAlarm = 0" "\<not> alarmTriggered initialAlarm"
    by (simp_all add: initialAlarm_def)
  have b: "butlast ?ts = replicate 3 (Tick True (Num (1 / 5)))"
    by (simp add: butlast_conv_take)
  show ?thesis
    using episode_triggers_once [of 4 1000 ?ts False "Num (1 / 5)" initialAlarm, OF _ _ n c o e z]
    unfolding b by (simp add: initialAlarm_def)
qed

text \<open>
  C1 as stated fails in four ways. In Scenario A the exposed \<open>eyesClosedDuration\<close> is 4,
  not 0, after the open tick. With threshold 0, \<open>ceil(0 / \<Delta>t) = 0\<close> closed ticks are
  fed and no alarm is triggered. With threshold 0.5 s and \<open>\<Delta>t\<close> = 0.5 s one closed tick is
  fed, the floored accumulator is 0, and no alarm is triggered. With threshold 1 s and polling
  every 100 ms, \<open>ceil(1 / 0.1) = 10\<close> closed ticks are fed; the ten rounded sums of the
  double nearest to 0.1 end at 0.9999999999999999, the floor is 0, and no alarm is triggered.
\<close>

theorem episode_reset_counterexample:
  "eyesClosedDuration
     (run_ieee 4 1000 initialAlarm
        (replicate (ticksToThreshold 4 1000) (Tick True (Num (1 / 5))) @ [Tick False (Num (1 / 5))])) = 4
   \<and> showAlarm
     (run_ieee 0 1000 initialAlarm
        (replicate (ticksToThreshold 0 1000) (Tick True (Num (1 / 5))) @ [Tick False (Num (1 / 5))])) = False
   \<and> showAlarm
     (run_ieee (1 / 2) 500 initialAlarm
        (replicate (ticksToThreshold (1 / 2) 500) (Tick True (Num (1 / 5))) @ [Tick False (Num (1 / 5))])) = False
   \<and> ticksToThreshold 1 100 = 10
   \<and> showAlarm
     (run_ieee 1 100 initialAlarm
        (replicate (ticksToThreshold 1 100) (Tick True (Num (1 / 5))) @ [Tick False (Num (1 / 5))])) = False"
  by code_simp

section \<open>The alarm: dismissal\<close>




section \<open>The alarm: faulty readings\<close>

text \<open>
  C3 (amended). A reading that is \<open>NaN\<close> or \<open>+Infinity\<close> takes the eyes-open
  branch whatever \<open>isDrowsy\<close> is: the accumulator is reset to 0, the triggered flag is
  cleared, no alarm is triggered on that tick (\<open>showAlarm\<close> and \<open>console\<close> are as
  before), and the state is the one an ordinary open-eye tick leaves, so nothing remembers
  the fault.
\<close>

theorem faulty_reading_open:
  assumes "earValue = NaN \<or> earValue = PosInf"
  shows "checkDrowsiness T P s isDrowsy earValue = s\<lparr>eyesClosedCounter := 0, alarmTriggered := False\<rparr>
       \<and> checkDrowsiness T P s isDrowsy earValue = checkDrowsiness T P s False (Num e)
       \<and> showAlarm (checkDrowsiness T P s isDrowsy earValue) = showAlarm s
       \<and> console (checkDrowsiness T P s isDrowsy earValue) = console s"
  using assms by (auto simp add: checkDrowsiness_def)

text \<open>
  Both non-finite readings of the amended claim, on the initial state with \<open>isDrowsy\<close>.
\<close>

theorem faulty_reading_open_witness:
  "checkDrowsiness 1 1000 initialAlarm True NaN = initialAlarm
   \<and> checkDrowsiness 1 1000 initialAlarm True PosInf = initialAlarm"
  using faulty_reading_open [of NaN 1 1000 initialAlarm True 0]
    faulty_reading_open [of PosInf 1 1000 initialAlarm True 0]
  by (simp add: initialAlarm_def)

text \<open>
  C3 as stated fails for negative readings: \<open>-1\<close> and \<open>-Infinity\<close> are below 0.25,
  the tick takes the closed-eye branch, and with threshold 1 s the alarm is triggered on it.
\<close>

theorem negative_reading_counterexample:
  "checkDrowsiness 1 1000 initialAlarm True (Num (- 1)) =
     \<lparr>showAlarm = True, eyesClosedDuration = 1, eyesClosedCounter = 1,
      alarmTriggered = True, console = [1]\<rparr>
   \<and> checkDrowsiness 1 1000 initialAlarm True NegInf =
     \<lparr>showAlarm = True, eyesClosedDuration = 1, eyesClosedCounter = 1,
      alarmTriggered = True, console = [1]\<rparr>"
  by (simp add: checkDrowsiness_def initialAlarm_def Let_def)

section \<open>The alarm: the published duration\<close>








section \<open>Statistics of a day: invariants and totality\<close>

lemma formatDateKey_invalid: "formatDateKey rt None = ''NaN-NaN-NaN''"
  by (simp add: formatDateKey_def getFullYear_def getMonth_def getDate_def numberToString_def padStart_def)

lemma getHours_range: "getHours rt d = Some h \<Longrightarrow> h < 24"
  by (cases d) (auto simp add: getHours_def intro: nat_less_iff [THEN iffD2])

lemma getHours_valid: "getHours rt d = None \<longleftrightarrow> d = None"
  by (simp add: getHours_def)

lemma sum_list_bump:
  assumes "i < length xs" and "f y = f (xs ! i) + (1::nat)"
  shows "sum_list (map f (xs[i := y])) = sum_list (map f xs) + 1"
proof -
  have "map f (xs[i := y]) = (map f xs)[i := f y]" by (simp add: map_update)
  moreover have "i < length (map f xs)" using assms(1) by simp
  ultimately have "sum_list (map f (xs[i := y])) = sum_list (map f xs) + f y - (map f xs) ! i"
    by (simp add: sum_list_update)
  then show ?thesis using assms by simp
qed

lemma sum_list_same:
  assumes "i < length xs" and "f y = f (xs ! i)"
  shows "sum_list (map f (xs[i := y])) = sum_list (map f xs)"
proof -
  have "map f (xs[i := y]) = (map f xs)[i := f (xs ! i)]" using assms by (simp add: map_update)
  also have "\<dots> = map f xs" using assms(1) by (simp add: list_update_same_conv)
  finally show ?thesis by simp
qed

lemma countAlert_skip:
  "timestamp a = [] \<or> formatDateKey rt (new_Date rt (timestamp a)) \<noteq> dayKey \<Longrightarrow>
   countAlert rt dayKey st a = Inr st"
  by (auto simp add: countAlert_def Let_def)

lemma countAlert_throw:
  assumes "timestamp a \<noteq> []" and "formatDateKey rt (new_Date rt (timestamp a)) = dayKey"
    and "getHours rt (new_Date rt (timestamp a)) = None"
  shows "countAlert rt dayKey st a = Inl TypeError"
  using assms by (simp add: countAlert_def Let_def)

lemma countAlert_hit:
  assumes "timestamp a \<noteq> []" and "formatDateKey rt (new_Date rt (timestamp a)) = dayKey"
    and "getHours rt (new_Date rt (timestamp a)) = Some h" and "h < length (hourly st)"
  shows "countAlert rt dayKey st a =
     Inr (st\<lparr>total := total st + 1,
            drowsy := (if type a = ''drowsiness'' then drowsy st + 1 else drowsy st),
            yawn := (if type a \<noteq> ''drowsiness'' \<and> type a = ''yawning'' then yawn st + 1 else yawn st),
            hourly := (hourly st)[h := (hourly st ! h)
              \<lparr>h_total := h_total (hourly st ! h) + 1,
               h_drowsy := (if type a = ''drowsiness'' then h_drowsy (hourly st ! h) + 1
                            else h_drowsy (hourly st ! h)),
               h_yawn := (if type a \<noteq> ''drowsiness'' \<and> type a = ''yawning''
                          then h_yawn (hourly st ! h) + 1 else h_yawn (hourly st ! h))\<rparr>]\<rparr>)"
  using assms by (simp add: countAlert_def Let_def)

lemma countAlert_cases:
  obtains (skip) "countAlert rt dayKey st a = Inr st"
        | (throw) "countAlert rt dayKey st a = Inl TypeError"
        | (hit) h where "timestamp a \<noteq> []" "formatDateKey rt (new_Date rt (timestamp a)) = dayKey"
            "getHours rt (new_Date rt (timestamp a)) = Some h" "h < length (hourly st)"
proof (cases "timestamp a = [] \<or> formatDateKey rt (new_Date rt (timestamp a)) \<noteq> dayKey")
  case True
  then show ?thesis using countAlert_skip skip by blast
next
  case False
  show ?thesis
  proof (cases "getHours rt (new_Date rt (timestamp a))")
    case None
    then show ?thesis using False countAlert_throw throw by blast
  next
    case (Some h)
    show ?thesis
    proof (cases "h < length (hourly st)")
      case True
      then show ?thesis using False Some hit by blast
    next
      case False
      then have "countAlert rt dayKey st a = Inl TypeError"
        using \<open>\<not> (timestamp a = [] \<or> formatDateKey rt (new_Date rt (timestamp a)) \<noteq> dayKey)\<close> Some
        by (simp add: countAlert_def Let_def)
      then show ?thesis using throw by blast
    qed
  qed
qed

lemma countAlert_inv:
  assumes r: "countAlert rt dayKey st a = Inr st'" and i: "dayStatsInv st"
  shows "dayStatsInv st'"
proof (cases rule: countAlert_cases [of rt dayKey st a])
  case skip
  then show ?thesis using r i by simp
next
  case throw
  then show ?thesis using r by simp
next
  case (hit h)
  let ?b = "(hourly st ! h)
              \<lparr>h_total := h_total (hourly st ! h) + 1,
               h_drowsy := (if type a = ''drowsiness'' then h_drowsy (hourly st ! h) + 1
                            else h_drowsy (hourly st ! h)),
               h_yawn := (if type a \<noteq> ''drowsiness'' \<and> type a = ''yawning''
                          then h_yawn (hourly st ! h) + 1 else h_yawn (hourly st ! h))\<rparr>"
  have s: "sum_list (map h_total ((hourly st)[h := ?b])) = sum_list (map h_total (hourly st)) + 1"
    using hit(4) by (intro sum_list_bump) simp_all
  have st': "st' = st\<lparr>total := total st + 1,
            drowsy := (if type a = ''drowsiness'' then drowsy st + 1 else drowsy st),
            yawn := (if type a \<noteq> ''drowsiness'' \<and> type a = ''yawning'' then yawn st + 1 else yawn st),
            hourly := (hourly st)[h := ?b]\<rparr>"
    using r countAlert_hit [OF hit] by simp
  show ?thesis using i s unfolding st' dayStatsInv_def by simp
qed

lemma forEach_inv:
  assumes step: "\<And>s x s'. f s x = Inr s' \<Longrightarrow> I s \<Longrightarrow> I s'"
  shows "forEach f s xs = Inr s' \<Longrightarrow> I s \<Longrightarrow> I s'"
proof (induction xs arbitrary: s)
  case Nil
  then show ?case by simp
next
  case (Cons x xs)
  then obtain s1 where s1: "f s x = Inr s1" and r: "forEach f s1 xs = Inr s'"
    by (auto split: sum.splits)
  from step [OF s1 Cons.prems(2)] have "I s1" .
  then show ?case using Cons.IH [OF r] by simp
qed

lemma forEach_total:
  assumes step: "\<And>s x. I s \<Longrightarrow> \<exists>s'. f s x = Inr s' \<and> I s'"
  shows "I s \<Longrightarrow> \<exists>s'. forEach f s xs = Inr s'"
proof (induction xs arbitrary: s)
  case Nil
  then show ?case by simp
next
  case (Cons x xs)
  from step [OF Cons.prems] obtain s1 where s1: "f s x = Inr s1" and i: "I s1" by blast
  from Cons.IH [OF i] show ?case using s1 by simp
qed

lemma countAlert_total:
  assumes d: "dayKey \<noteq> ''NaN-NaN-NaN''" and l: "length (hourly st) = 24"
  shows "\<exists>st'. countAlert rt dayKey st a = Inr st' \<and> length (hourly st') = 24"
proof (cases rule: countAlert_cases [of rt dayKey st a])
  case skip
  then show ?thesis using l by simp
next
  case (hit h)
  show ?thesis unfolding countAlert_hit [OF hit] using l by simp
next
  case throw
  show ?thesis
  proof (cases "timestamp a = [] \<or> formatDateKey rt (new_Date rt (timestamp a)) \<noteq> dayKey")
    case True
    then show ?thesis using countAlert_skip [of a rt dayKey st] throw by simp
  next
    case False
    then have "new_Date rt (timestamp a) \<noteq> None" using d formatDateKey_invalid by metis
    then obtain h where h: "getHours rt (new_Date rt (timestamp a)) = Some h"
      using getHours_valid [of rt "new_Date rt (timestamp a)"] by auto
    have "h < length (hourly st)" using getHours_range [OF h] l by simp
    then show ?thesis using countAlert_hit [of a rt dayKey h st] False h throw by simp
  qed
qed

lemma initial_dayStatsInv:
  "dayStatsInv \<lparr>total = 0, drowsy = 0, yawn = 0, hourly = emptyHours\<rparr>"
  by (simp add: dayStatsInv_def emptyHours_def comp_def)

lemma computeDayStats_total:
  assumes "dayKey \<noteq> ''NaN-NaN-NaN''"
  shows "\<exists>st. computeDayStats rt M dayKey = Inr st"
  unfolding computeDayStats_def
  by (rule forEach_total [where I = "\<lambda>st. length (hourly st) = 24"])
     (auto intro: countAlert_total [OF assms] simp add: emptyHours_def)

lemma computeDayStats_inv:
  assumes "computeDayStats rt M dayKey = Inr st"
  shows "dayStatsInv st"
  using assms unfolding computeDayStats_def
  by (rule forEach_inv [where I = dayStatsInv, rotated]) (auto intro: countAlert_inv initial_dayStatsInv)

section \<open>The example viewer, evaluated\<close>

lemma viewer_simps: "tz_offset viewer t = 0" "time_now viewer = 1714558500000"
  "date_parse viewer ''2024-05-01T10:15:00'' = Some 1714558500000"
  "date_parse viewer ''2024-05-02T09:00:00'' = Some 1714640400000"
  "date_parse viewer ''garbage'' = None"
  by (simp_all add: viewer_def)

lemma viewer_key1: "formatDateKey viewer (Some 1714558500000) = ''2024-05-01''"
  by code_simp

lemma viewer_key2: "formatDateKey viewer (Some 1714640400000) = ''2024-05-02''"
  by code_simp

lemma viewer_hour1: "getHours viewer (Some 1714558500000) = Some 10"
  by code_simp

lemma viewer_hour2: "getHours viewer (Some 1714640400000) = Some 9"
  by code_simp

lemma emptyHours_length: "length emptyHours = 24"
  by (simp add: emptyHours_def)

lemma emptyHours_nth:
  "i < 24 \<Longrightarrow> emptyHours ! i = \<lparr>hour = i, h_drowsy = 0, h_yawn = 0, h_total = 0\<rparr>"
  by (simp add: emptyHours_def)

lemmas scenarioB_eval = computeDayStats_def scenarioB_def Object_values_def alertAt_def
  countAlert_def new_Date_def viewer_simps viewer_key1 viewer_key2 viewer_hour1 viewer_hour2
  emptyHours_length emptyHours_nth Let_def

lemma scenarioB_stats:
  "\<exists>st. computeDayStats viewer scenarioB ''2024-05-01'' = Inr st \<and> total st = 2 \<and> drowsy st = 1
     \<and> yawn st = 1 \<and> h_total (hourly st ! 10) = 2"
  by (simp add: scenarioB_eval)

section \<open>Statistics of a day: the claims\<close>

text \<open>
  C4. Every result of \<open>computeDayStats\<close> satisfies \<open>drowsy + yawn \<le> total\<close>, has
  24 hourly buckets, and the sum of their \<open>total\<close> is \<open>total\<close>. There is a result for
  every mapping and every day key of a calendar day: only for the key \<open>NaN-NaN-NaN\<close>
  that \<open>formatDateKey\<close> gives an Invalid Date can the function throw.
\<close>

theorem day_stats_invariant:
  "(dayKey \<noteq> ''NaN-NaN-NaN'' \<longrightarrow> (\<exists>st. computeDayStats rt M dayKey = Inr st))
   \<and> (\<forall>st. computeDayStats rt M dayKey = Inr st \<longrightarrow>
         drowsy st + yawn st \<le> total st \<and> length (hourly st) = 24
         \<and> sum_list (map h_total (hourly st)) = total st)"
  using computeDayStats_total [of dayKey rt M] computeDayStats_inv [of rt M dayKey]
  by (auto simp add: dayStatsInv_def)

text \<open>
  Scenario B: two alerts on 2024-05-01 at 10:15, one on the next day.
\<close>

theorem day_stats_invariant_witness:
  "\<exists>st. computeDayStats viewer scenarioB ''2024-05-01'' = Inr st
     \<and> total st = 2 \<and> drowsy st = 1 \<and> yawn st = 1
     \<and> drowsy st + yawn st \<le> total st \<and> length (hourly st) = 24
     \<and> sum_list (map h_total (hourly st)) = total st"
proof -
  obtain st where st: "computeDayStats viewer scenarioB ''2024-05-01'' = Inr st"
    and v: "total st = 2" "drowsy st = 1" "yawn st = 1"
    using scenarioB_stats by blast
  have "drowsy st + yawn st \<le> total st \<and> length (hourly st) = 24
         \<and> sum_list (map h_total (hourly st)) = total st"
    using day_stats_invariant [of "''2024-05-01''" viewer scenarioB] st by blast
  then show ?thesis using st v by blast
qed

text \<open>
  C5. For every result of \<open>computeDayStats\<close> the safe rate is
  \<open>(total - drowsy - yawn) / total * 100\<close> when \<open>total > 0\<close>, where the difference is a
  count (it cannot be negative), and 100 when \<open>total = 0\<close>; it lies between 0 and 100.
  An empty mapping gives \<open>total = 0\<close> and a safe rate of 100 for every day key.
\<close>

theorem day_safe_rate:
  "(dayKey \<noteq> ''NaN-NaN-NaN'' \<longrightarrow> (\<exists>st. computeDayStats rt M dayKey = Inr st))
   \<and> (\<forall>st. computeDayStats rt M dayKey = Inr st \<longrightarrow>
         (0 < total st \<longrightarrow>
            daySafeRate st = of_nat (total st - drowsy st - yawn st) / of_nat (total st) * 100)
         \<and> (total st = 0 \<longrightarrow> daySafeRate st = 100)
         \<and> 0 \<le> daySafeRate st \<and> daySafeRate st \<le> 100)
   \<and> (\<exists>st. computeDayStats rt [] dayKey = Inr st \<and> total st = 0 \<and> daySafeRate st = 100)"
proof -
  have 1: "dayKey \<noteq> ''NaN-NaN-NaN'' \<longrightarrow> (\<exists>st. computeDayStats rt M dayKey = Inr st)"
    using computeDayStats_total by blast
  have 2: "(0 < total st \<longrightarrow>
            daySafeRate st = of_nat (total st - drowsy st - yawn st) / of_nat (total st) * 100)
         \<and> (total st = 0 \<longrightarrow> daySafeRate st = 100)
         \<and> 0 \<le> daySafeRate st \<and> daySafeRate st \<le> 100"
    if "computeDayStats rt M dayKey = Inr st" for st
  proof -
    have le: "drowsy st + yawn st \<le> total st"
      using computeDayStats_inv [OF that] by (simp add: dayStatsInv_def)
    have eq: "(of_nat (total st) - of_nat (drowsy st) - of_nat (yawn st) :: rat)
        = of_nat (total st - drowsy st - yawn st)"
      using le by (simp add: of_nat_diff)
    have a: "0 < total st \<longrightarrow>
            daySafeRate st = of_nat (total st - drowsy st - yawn st) / of_nat (total st) * 100"
      by (simp add: daySafeRate_def eq del: of_nat_diff)
    have b: "total st = 0 \<longrightarrow> daySafeRate st = 100" by (simp add: daySafeRate_def)
    have c: "0 \<le> daySafeRate st"
      by (simp add: daySafeRate_def eq del: of_nat_diff)
    have "(of_nat (total st - drowsy st - yawn st) :: rat) \<le> of_nat (total st)"
      by simp
    then have d: "daySafeRate st \<le> 100"
      by (simp add: daySafeRate_def eq divide_le_eq del: of_nat_diff)
    show ?thesis using a b c d by blast
  qed
  have 3: "\<exists>st. computeDayStats rt [] dayKey = Inr st \<and> total st = 0 \<and> daySafeRate st = 100"
    by (simp add: computeDayStats_def Object_values_def daySafeRate_def)
  show ?thesis using 1 2 3 by blast
qed

text \<open>
  The second day of Scenario B has one drowsiness alert: the safe rate is 0.
\<close>

theorem day_safe_rate_witness:
  "\<exists>st. computeDayStats viewer scenarioB ''2024-05-02'' = Inr st \<and> total st = 1
     \<and> daySafeRate st = 0"
proof -
  have "\<exists>st. computeDayStats viewer scenarioB ''2024-05-02'' = Inr st \<and> total st = 1 \<and> drowsy st = 1
     \<and> yawn st = 0"
    by (simp add: scenarioB_eval)
  then obtain st where st: "computeDayStats viewer scenarioB ''2024-05-02'' = Inr st"
    and v: "total st = 1" "drowsy st = 1" "yawn st = 0" by blast
  have "0 < total st \<longrightarrow>
            daySafeRate st = of_nat (total st - drowsy st - yawn st) / of_nat (total st) * 100"
    using day_safe_rate [of "''2024-05-02''" viewer scenarioB] st by blast
  then have "daySafeRate st = 0" using v by simp
  then show ?thesis using st v by blast
qed

section \<open>Deleting a record\<close>

lemma forEach_without_mono:
  assumes mono: "\<And>a b x b'. R a b \<Longrightarrow> f b x = Inr b' \<Longrightarrow> \<exists>a'. f a x = Inr a' \<and> R a' b'"
    and incr: "\<And>a b x b'. R a b \<Longrightarrow> f b x = Inr b' \<Longrightarrow> R a b'"
  shows "R a b \<Longrightarrow> forEach f b (Object_values M) = Inr b' \<Longrightarrow>
         \<exists>a'. forEach f a (Object_values (without k M)) = Inr a' \<and> R a' b'"
proof (induction M arbitrary: a b)
  case Nil
  then show ?case by (simp add: Object_values_def without_def)
next
  case (Cons kv M)
  from Cons.prems(2) obtain b1 where b1: "f b (snd kv) = Inr b1"
    and r: "forEach f b1 (Object_values M) = Inr b'"
    by (auto simp add: Object_values_def split: sum.splits)
  show ?case
  proof (cases "fst kv = k")
    case True
    have "R a b1" by (rule incr [OF Cons.prems(1) b1])
    from Cons.IH [OF this r] show ?thesis using True by (simp add: without_def Object_values_def)
  next
    case False
    from mono [OF Cons.prems(1) b1] obtain a1 where a1: "f a (snd kv) = Inr a1" and R1: "R a1 b1"
      by blast
    from Cons.IH [OF R1 r] show ?thesis using False a1 by (simp add: without_def Object_values_def)
  qed
qed

lemma statsLe_refl: "statsLe b b"
  by (simp add: statsLe_def bucketLe_def)

lemma countAlert_mono:
  assumes le: "statsLe a b" and r: "countAlert rt dayKey b x = Inr b'"
  shows "\<exists>a'. countAlert rt dayKey a x = Inr a' \<and> statsLe a' b'"
proof (cases rule: countAlert_cases [of rt dayKey b x])
  case throw
  then show ?thesis using r by simp
next
  case (hit h)
  have ha: "h < length (hourly a)" using hit(4) le by (simp add: statsLe_def)
  have b': "b' = b\<lparr>total := total b + 1,
            drowsy := (if type x = ''drowsiness'' then drowsy b + 1 else drowsy b),
            yawn := (if type x \<noteq> ''drowsiness'' \<and> type x = ''yawning'' then yawn b + 1 else yawn b),
            hourly := (hourly b)[h := (hourly b ! h)
              \<lparr>h_total := h_total (hourly b ! h) + 1,
               h_drowsy := (if type x = ''drowsiness'' then h_drowsy (hourly b ! h) + 1
                            else h_drowsy (hourly b ! h)),
               h_yawn := (if type x \<noteq> ''drowsiness'' \<and> type x = ''yawning''
                          then h_yawn (hourly b ! h) + 1 else h_yawn (hourly b ! h))\<rparr>]\<rparr>"
    using r countAlert_hit [OF hit] by simp
  have bh: "bucketLe (hourly a ! h) (hourly b ! h)" using le hit(4) by (simp add: statsLe_def)
  show ?thesis
    unfolding countAlert_hit [OF hit(1,2,3) ha] b'
    using le bh hit(4) by (auto simp add: statsLe_def bucketLe_def nth_list_update)
next
  case skip
  then have b': "b' = b" using r by simp
  show ?thesis
  proof (cases "timestamp x = [] \<or> formatDateKey rt (new_Date rt (timestamp x)) \<noteq> dayKey")
    case True
    then show ?thesis using countAlert_skip [of x rt dayKey a] le b' by simp
  next
    case False
    then obtain h where h: "getHours rt (new_Date rt (timestamp x)) = Some h" "h < length (hourly b)"
      using r by (auto simp add: countAlert_def Let_def split: option.splits if_splits)
    have "countAlert rt dayKey b x \<noteq> Inr b"
      using countAlert_hit [of x rt dayKey h b] False h
      by (auto dest: arg_cong [where f = total])
    then show ?thesis using skip by simp
  qed
qed

lemma countAlert_incr:
  assumes le: "statsLe a b" and r: "countAlert rt dayKey b x = Inr b'"
  shows "statsLe a b'"
proof (cases rule: countAlert_cases [of rt dayKey b x])
  case throw
  then show ?thesis using r by simp
next
  case skip
  then show ?thesis using r le by simp
next
  case (hit h)
  have bh: "bucketLe (hourly a ! h) (hourly b ! h)" using le hit(4) by (simp add: statsLe_def)
  show ?thesis
    using r le bh hit(4) unfolding countAlert_hit [OF hit]
    by (auto simp add: statsLe_def bucketLe_def nth_list_update)
qed

lemma computeDayStats_without:
  assumes "computeDayStats rt M dayKey = Inr b"
  shows "\<exists>a. computeDayStats rt (without k M) dayKey = Inr a \<and> statsLe a b"
  using assms unfolding computeDayStats_def
  by (rule forEach_without_mono [where R = statsLe, rotated 3])
     (auto intro: countAlert_mono countAlert_incr statsLe_refl)

lemma computeDayStats_length:
  assumes "computeDayStats rt M dayKey = Inr b"
  shows "length (hourly b) = 24"
  using computeDayStats_inv [OF assms] by (simp add: dayStatsInv_def)

lemma map_of_setProperty:
  "map_of (setProperty k v cs) k' = (if k' = k then Some v else map_of cs k')"
  by (induction k v cs rule: setProperty.induct) auto

lemma wfCounts_setProperty: "wfCounts cs \<Longrightarrow> wfValue k v \<Longrightarrow> wfCounts (setProperty k v cs)"
  by (induction k v cs rule: setProperty.induct) (auto simp add: wfCounts_def)

lemma wfCounts_lookup: "wfCounts cs \<Longrightarrow> map_of cs k = Some v \<Longrightarrow> wfValue k v"
  by (induction cs) (auto simp add: wfCounts_def split: if_splits)

lemma prototype_texts: "map_of Object_prototype k = Some t \<Longrightarrow> t \<noteq> []"
  by (auto simp add: Object_prototype_def native_def split: if_splits)

lemma prototype_proto: "map_of Object_prototype ''__proto__'' \<noteq> None"
  by (simp add: Object_prototype_def)

lemma incremented_value:
  assumes wf: "wfCounts cs"
  shows "wfValue em (orZeroPlusOne (getProperty cs em))"
    and "map_of Object_prototype em = None \<Longrightarrow>
         orZeroPlusOne (getProperty cs em) = Number (countOf cs em + 1)"
    and "map_of Object_prototype em \<noteq> None \<Longrightarrow>
         countOf cs em = 0 \<and> (\<exists>t. orZeroPlusOne (getProperty cs em) = Text t)"
proof -
  show "wfValue em (orZeroPlusOne (getProperty cs em))"
  proof (cases "map_of cs em")
    case None
    then show ?thesis
      using prototype_texts [of em]
      by (cases "map_of Object_prototype em")
         (simp_all add: getProperty_def orZeroPlusOne_def wfValue_def)
  next
    case (Some v)
    then show ?thesis
      using wfCounts_lookup [OF wf Some]
      by (cases v) (simp_all add: getProperty_def orZeroPlusOne_def wfValue_def)
  qed
  show "orZeroPlusOne (getProperty cs em) = Number (countOf cs em + 1)"
    if p: "map_of Object_prototype em = None"
  proof (cases "map_of cs em")
    case None
    then show ?thesis using p by (simp add: getProperty_def orZeroPlusOne_def countOf_def)
  next
    case (Some v)
    then show ?thesis
      using wfCounts_lookup [OF wf Some] p
      by (cases v) (simp_all add: getProperty_def orZeroPlusOne_def wfValue_def countOf_def)
  qed
  show "countOf cs em = 0 \<and> (\<exists>t. orZeroPlusOne (getProperty cs em) = Text t)"
    if p: "map_of Object_prototype em \<noteq> None"
  proof (cases "map_of cs em")
    case None
    then show ?thesis
      using p prototype_texts [of em]
      by (cases "map_of Object_prototype em")
         (simp_all add: getProperty_def orZeroPlusOne_def countOf_def)
  next
    case (Some v)
    then show ?thesis
      using wfCounts_lookup [OF wf Some] p
      by (cases v) (simp_all add: getProperty_def orZeroPlusOne_def wfValue_def countOf_def)
  qed
qed

lemma wfCounts_increment: "wfCounts cs \<Longrightarrow> wfCounts (increment em cs)"
  by (simp add: increment_def wfCounts_setProperty incremented_value(1))

lemma countOf_increment:
  assumes wf: "wfCounts cs"
  shows "countOf (increment em cs) k =
     (if k = em \<and> map_of Object_prototype em = None then countOf cs em + 1 else countOf cs k)"
proof (cases "em = ''__proto__''")
  case True
  then show ?thesis using prototype_proto by (simp add: increment_def)
next
  case False
  show ?thesis
  proof (cases "k = em")
    case ne: False
    then show ?thesis using False by (simp add: increment_def countOf_def map_of_setProperty)
  next
    case True
    show ?thesis
    proof (cases "map_of Object_prototype em = None")
      case p: True
      show ?thesis
        using False True p incremented_value(2) [OF wf p]
        by (simp add: increment_def countOf_def map_of_setProperty)
    next
      case p: False
      from incremented_value(3) [OF wf p] obtain t
        where z: "countOf cs em = 0" and t: "orZeroPlusOne (getProperty cs em) = Text t" by blast
      have "countOf (increment em cs) em = 0"
        using False t by (simp add: increment_def countOf_def map_of_setProperty)
      then show ?thesis using True p z by simp
    qed
  qed
qed

lemma countsLe_refl: "countsLe cs cs"
  by (simp add: countsLe_def)

lemma countsLe_increment:
  "wfCounts as \<Longrightarrow> wfCounts bs \<Longrightarrow> countsLe as bs \<Longrightarrow> countsLe (increment em as) (increment em bs)"
  by (simp add: countsLe_def countOf_increment)

lemma countsLe_increment_right: "wfCounts bs \<Longrightarrow> countsLe as bs \<Longrightarrow> countsLe as (increment em bs)"
  by (auto simp add: countsLe_def countOf_increment intro: le_SucI)

lemma countEmotion_skip:
  "timestamp e = [] \<or> emotion e = [] \<or> formatDateKey rt (new_Date rt (timestamp e)) \<noteq> dayKey \<Longrightarrow>
   countEmotion rt dayKey st e = Inr st"
  by (auto simp add: countEmotion_def Let_def)

lemma countEmotion_hit:
  assumes "timestamp e \<noteq> []" and "emotion e \<noteq> []"
    and "formatDateKey rt (new_Date rt (timestamp e)) = dayKey"
    and "getHours rt (new_Date rt (timestamp e)) = Some h" and "h < length (em_hourly st)"
  shows "countEmotion rt dayKey st e =
     Inr (st\<lparr>em_total := em_total st + 1,
            counts := increment (toLowerCase (emotion e)) (counts st),
            em_hourly := (em_hourly st)[h := (em_hourly st ! h)
              \<lparr>em_hour_total := em_hour_total (em_hourly st ! h) + 1,
               em_hour_counts := increment (toLowerCase (emotion e))
                                   (em_hour_counts (em_hourly st ! h))\<rparr>]\<rparr>)"
  using assms by (simp add: countEmotion_def Let_def)

lemma countEmotion_cases:
  obtains (skip) "timestamp e = [] \<or> emotion e = [] \<or> formatDateKey rt (new_Date rt (timestamp e)) \<noteq> dayKey"
            "countEmotion rt dayKey st e = Inr st"
        | (throw) "timestamp e \<noteq> []" "emotion e \<noteq> []"
            "formatDateKey rt (new_Date rt (timestamp e)) = dayKey"
            "getHours rt (new_Date rt (timestamp e)) = None \<or>
             (\<exists>h. getHours rt (new_Date rt (timestamp e)) = Some h \<and> length (em_hourly st) \<le> h)"
            "countEmotion rt dayKey st e = Inl TypeError"
        | (hit) h where "timestamp e \<noteq> []" "emotion e \<noteq> []"
            "formatDateKey rt (new_Date rt (timestamp e)) = dayKey"
            "getHours rt (new_Date rt (timestamp e)) = Some h" "h < length (em_hourly st)"
proof (cases "timestamp e = [] \<or> emotion e = [] \<or> formatDateKey rt (new_Date rt (timestamp e)) \<noteq> dayKey")
  case True
  then show ?thesis using countEmotion_skip skip by blast
next
  case False
  show ?thesis
  proof (cases "getHours rt (new_Date rt (timestamp e))")
    case None
    then have "countEmotion rt dayKey st e = Inl TypeError"
      using False by (simp add: countEmotion_def Let_def)
    then show ?thesis using False None throw by blast
  next
    case (Some h)
    show ?thesis
    proof (cases "h < length (em_hourly st)")
      case True
      then show ?thesis using False Some hit by blast
    next
      case nl: False
      then have "countEmotion rt dayKey st e = Inl TypeError"
        using False Some by (simp add: countEmotion_def Let_def)
      then show ?thesis using False Some nl throw [of ] by auto
    qed
  qed
qed

lemma countEmotion_total:
  assumes d: "dayKey \<noteq> ''NaN-NaN-NaN''" and l: "length (em_hourly st) = 24"
  shows "\<exists>st'. countEmotion rt dayKey st e = Inr st' \<and> length (em_hourly st') = 24"
proof (cases rule: countEmotion_cases [of e rt dayKey st])
  case skip
  then show ?thesis using l by simp
next
  case (hit h)
  show ?thesis unfolding countEmotion_hit [OF hit] using l by simp
next
  case throw
  have "new_Date rt (timestamp e) \<noteq> None" using d throw(3) formatDateKey_invalid by metis
  then obtain h where h: "getHours rt (new_Date rt (timestamp e)) = Some h"
    using getHours_valid [of rt "new_Date rt (timestamp e)"] by auto
  have "h < length (em_hourly st)" using getHours_range [OF h] l by simp
  then show ?thesis using throw(4) h by simp
qed

lemma countEmotion_length:
  assumes "countEmotion rt dayKey st e = Inr st'"
  shows "length (em_hourly st') = length (em_hourly st)"
proof (cases rule: countEmotion_cases [of e rt dayKey st])
  case skip
  then show ?thesis using assms by simp
next
  case (hit h)
  show ?thesis using assms unfolding countEmotion_hit [OF hit] by auto
next
  case throw
  then show ?thesis using assms by simp
qed

lemma emotionStatsLe_refl: "emotionStatsLe b b"
  by (simp add: emotionStatsLe_def emotionBucketLe_def countsLe_refl)

lemma wfEmotionStats_empty:
  "wfEmotionStats \<lparr>em_total = 0, counts = [], em_hourly = emptyEmotionHours, dominant = ''neutral''\<rparr>"
  by (simp add: wfEmotionStats_def wfCounts_def emptyEmotionHours_def)

lemma countEmotion_wf:
  assumes wf: "wfEmotionStats st" and r: "countEmotion rt dayKey st x = Inr st'"
  shows "wfEmotionStats st'"
proof (cases rule: countEmotion_cases [of x rt dayKey st])
  case throw
  then show ?thesis using r by simp
next
  case skip
  then show ?thesis using r wf by simp
next
  case (hit h)
  have "wfCounts (em_hour_counts (em_hourly st ! h))"
    using wf hit(5) by (simp add: wfEmotionStats_def)
  then show ?thesis
    using r wf hit(5) unfolding countEmotion_hit [OF hit]
    by (auto simp add: wfEmotionStats_def nth_list_update wfCounts_increment)
qed

lemma countEmotion_mono:
  assumes le: "emotionStatsLe a b" and wa: "wfEmotionStats a" and wb: "wfEmotionStats b"
    and r: "countEmotion rt dayKey b x = Inr b'"
  shows "\<exists>a'. countEmotion rt dayKey a x = Inr a' \<and> emotionStatsLe a' b'"
proof (cases rule: countEmotion_cases [of x rt dayKey b])
  case throw
  then show ?thesis using r by simp
next
  case skip
  then show ?thesis using countEmotion_skip [of x rt dayKey a] le r by simp
next
  case (hit h)
  have ha: "h < length (em_hourly a)" using hit(5) le by (simp add: emotionStatsLe_def)
  have bh: "emotionBucketLe (em_hourly a ! h) (em_hourly b ! h)"
    using le hit(5) by (simp add: emotionStatsLe_def)
  have b': "b' = b\<lparr>em_total := em_total b + 1,
            counts := increment (toLowerCase (emotion x)) (counts b),
            em_hourly := (em_hourly b)[h := (em_hourly b ! h)
              \<lparr>em_hour_total := em_hour_total (em_hourly b ! h) + 1,
               em_hour_counts := increment (toLowerCase (emotion x))
                                   (em_hour_counts (em_hourly b ! h))\<rparr>]\<rparr>"
    using r countEmotion_hit [OF hit] by simp
  have wh: "wfCounts (em_hour_counts (em_hourly a ! h))" "wfCounts (em_hour_counts (em_hourly b ! h))"
    using wa wb ha hit(5) by (simp_all add: wfEmotionStats_def)
  have wc: "wfCounts (counts a)" "wfCounts (counts b)"
    using wa wb by (simp_all add: wfEmotionStats_def)
  show ?thesis
    unfolding countEmotion_hit [OF hit(1,2,3,4) ha] b'
    using le bh hit(5) wh wc
    by (auto simp add: emotionStatsLe_def emotionBucketLe_def nth_list_update countsLe_increment)
qed

lemma countEmotion_incr:
  assumes le: "emotionStatsLe a b" and wb: "wfEmotionStats b"
    and r: "countEmotion rt dayKey b x = Inr b'"
  shows "emotionStatsLe a b'"
proof (cases rule: countEmotion_cases [of x rt dayKey b])
  case throw
  then show ?thesis using r by simp
next
  case skip
  then show ?thesis using r le by simp
next
  case (hit h)
  have bh: "emotionBucketLe (em_hourly a ! h) (em_hourly b ! h)"
    using le hit(5) by (simp add: emotionStatsLe_def)
  have wh: "wfCounts (em_hour_counts (em_hourly b ! h))" "wfCounts (counts b)"
    using wb hit(5) by (simp_all add: wfEmotionStats_def)
  show ?thesis
    using r le bh hit(5) wh unfolding countEmotion_hit [OF hit]
    by (auto simp add: emotionStatsLe_def emotionBucketLe_def nth_list_update
          countsLe_increment_right)
qed

lemma computeEmotionDayStats_total:
  assumes "dayKey \<noteq> ''NaN-NaN-NaN''"
  shows "\<exists>st. computeEmotionDayStats rt M dayKey = Inr st"
proof -
  have "\<exists>st. forEach (countEmotion rt dayKey)
      \<lparr>em_total = 0, counts = [], em_hourly = emptyEmotionHours, dominant = ''neutral''\<rparr>
      (Object_values M) = Inr st"
    by (rule forEach_total [where I = "\<lambda>st. length (em_hourly st) = 24"])
       (auto intro: countEmotion_total [OF assms] simp add: emptyEmotionHours_def)
  then show ?thesis by (auto simp add: computeEmotionDayStats_def)
qed

lemma computeEmotionDayStats_length:
  assumes "computeEmotionDayStats rt M dayKey = Inr b"
  shows "length (em_hourly b) = 24"
proof -
  from assms obtain st where st: "forEach (countEmotion rt dayKey)
      \<lparr>em_total = 0, counts = [], em_hourly = emptyEmotionHours, dominant = ''neutral''\<rparr>
      (Object_values M) = Inr st" and b: "b = st\<lparr>dominant := findDominant (counts st)\<rparr>"
    by (auto simp add: computeEmotionDayStats_def split: sum.splits)
  have "length (em_hourly st) = 24"
    using st
    by (rule forEach_inv [where I = "\<lambda>st. length (em_hourly st) = 24", rotated])
       (auto simp add: countEmotion_length emptyEmotionHours_def)
  then show ?thesis using b by simp
qed

lemma computeEmotionDayStats_without:
  assumes "computeEmotionDayStats rt M dayKey = Inr b"
  shows "\<exists>a. computeEmotionDayStats rt (without k M) dayKey = Inr a \<and> emotionStatsLe a b"
proof -
  let ?s0 = "\<lparr>em_total = 0, counts = [], em_hourly = emptyEmotionHours, dominant = ''neutral''\<rparr>"
  from assms obtain st where st: "forEach (countEmotion rt dayKey) ?s0 (Object_values M) = Inr st"
    and b: "b = st\<lparr>dominant := findDominant (counts st)\<rparr>"
    by (auto simp add: computeEmotionDayStats_def split: sum.splits)
  let ?R = "\<lambda>a b. emotionStatsLe a b \<and> wfEmotionStats a \<and> wfEmotionStats b"
  have "\<exists>a'. forEach (countEmotion rt dayKey) ?s0 (Object_values (without k M)) = Inr a'
      \<and> ?R a' st"
    using st
  proof (rule forEach_without_mono [where R = ?R, rotated 3])
    show "?R ?s0 ?s0" using emotionStatsLe_refl wfEmotionStats_empty by blast
  next
    fix a b x b'
    assume R: "?R a b" and f: "countEmotion rt dayKey b x = Inr b'"
    from countEmotion_mono [of a b rt dayKey x b'] R f obtain a'
      where a': "countEmotion rt dayKey a x = Inr a'" and le: "emotionStatsLe a' b'" by blast
    have "wfEmotionStats a'" using countEmotion_wf [OF _ a'] R by blast
    moreover have "wfEmotionStats b'" using countEmotion_wf [OF _ f] R by blast
    ultimately show "\<exists>a'. countEmotion rt dayKey a x = Inr a' \<and> ?R a' b'" using a' le by blast
  next
    fix a b x b'
    assume R: "?R a b" and f: "countEmotion rt dayKey b x = Inr b'"
    have "emotionStatsLe a b'" using countEmotion_incr [of a b rt dayKey x b'] R f by blast
    moreover have "wfEmotionStats b'" using countEmotion_wf [OF _ f] R by blast
    ultimately show "?R a b'" using R by blast
  qed
  then obtain a' where a': "forEach (countEmotion rt dayKey) ?s0 (Object_values (without k M)) = Inr a'"
    and le: "emotionStatsLe a' st" by blast
  have "emotionStatsLe (a'\<lparr>dominant := findDominant (counts a')\<rparr>) b"
    using le b by (simp add: emotionStatsLe_def)
  then show ?thesis using a' by (simp add: computeEmotionDayStats_def)
qed

text \<open>
  C6. When \<open>computeDayStats\<close> returns for a mapping, it returns for the mapping without
  a key \<open>k\<close> too, and every counter of the smaller result (total, drowsy, yawn, and the
  three counts of each of the 24 hourly buckets) is at most the corresponding counter of the
  larger one. The same holds for \<open>computeEmotionDayStats\<close>: total, the count of every
  emotion (an absent label counts 0), and the total and the emotion counts of every hour.
  Both functions return for every day key of a calendar day.
\<close>

theorem deletion_monotone:
  "(dayKey \<noteq> ''NaN-NaN-NaN'' \<longrightarrow>
      (\<exists>b. computeDayStats rt M dayKey = Inr b) \<and> (\<exists>b. computeEmotionDayStats rt E dayKey = Inr b))
   \<and> (\<forall>b. computeDayStats rt M dayKey = Inr b \<longrightarrow>
        (\<exists>a. computeDayStats rt (without k M) dayKey = Inr a
           \<and> total a \<le> total b \<and> drowsy a \<le> drowsy b \<and> yawn a \<le> yawn b
           \<and> (\<forall>i<24. h_total (hourly a ! i) \<le> h_total (hourly b ! i)
                \<and> h_drowsy (hourly a ! i) \<le> h_drowsy (hourly b ! i)
                \<and> h_yawn (hourly a ! i) \<le> h_yawn (hourly b ! i))))
   \<and> (\<forall>b. computeEmotionDayStats rt E dayKey = Inr b \<longrightarrow>
        (\<exists>a. computeEmotionDayStats rt (without k E) dayKey = Inr a
           \<and> em_total a \<le> em_total b
           \<and> (\<forall>em. countOf (counts a) em \<le> countOf (counts b) em)
           \<and> (\<forall>i<24. em_hour_total (em_hourly a ! i) \<le> em_hour_total (em_hourly b ! i)
                \<and> (\<forall>em. countOf (em_hour_counts (em_hourly a ! i)) em
                           \<le> countOf (em_hour_counts (em_hourly b ! i)) em))))"
proof -
  have 1: "dayKey \<noteq> ''NaN-NaN-NaN'' \<longrightarrow>
      (\<exists>b. computeDayStats rt M dayKey = Inr b) \<and> (\<exists>b. computeEmotionDayStats rt E dayKey = Inr b)"
    using computeDayStats_total computeEmotionDayStats_total by blast
  have 2: "\<exists>a. computeDayStats rt (without k M) dayKey = Inr a
           \<and> total a \<le> total b \<and> drowsy a \<le> drowsy b \<and> yawn a \<le> yawn b
           \<and> (\<forall>i<24. h_total (hourly a ! i) \<le> h_total (hourly b ! i)
                \<and> h_drowsy (hourly a ! i) \<le> h_drowsy (hourly b ! i)
                \<and> h_yawn (hourly a ! i) \<le> h_yawn (hourly b ! i))"
    if b: "computeDayStats rt M dayKey = Inr b" for b
  proof -
    from computeDayStats_without [OF b] obtain a
      where a: "computeDayStats rt (without k M) dayKey = Inr a" and le: "statsLe a b" by blast
    have l: "length (hourly b) = 24" by (rule computeDayStats_length [OF b])
    show ?thesis using a le l by (auto simp add: statsLe_def bucketLe_def)
  qed
  have 3: "\<exists>a. computeEmotionDayStats rt (without k E) dayKey = Inr a
           \<and> em_total a \<le> em_total b
           \<and> (\<forall>em. countOf (counts a) em \<le> countOf (counts b) em)
           \<and> (\<forall>i<24. em_hour_total (em_hourly a ! i) \<le> em_hour_total (em_hourly b ! i)
                \<and> (\<forall>em. countOf (em_hour_counts (em_hourly a ! i)) em
                           \<le> countOf (em_hour_counts (em_hourly b ! i)) em))"
    if b: "computeEmotionDayStats rt E dayKey = Inr b" for b
  proof -
    from computeEmotionDayStats_without [OF b] obtain a
      where a: "computeEmotionDayStats rt (without k E) dayKey = Inr a"
        and le: "emotionStatsLe a b" by blast
    have l: "length (em_hourly b) = 24" by (rule computeEmotionDayStats_length [OF b])
    show ?thesis using a le l
      by (auto simp add: emotionStatsLe_def emotionBucketLe_def countsLe_def)
  qed
  show ?thesis using 1 2 3 by blast
qed

lemma emptyEmotionHours_length: "length emptyEmotionHours = 24"
  by (simp add: emptyEmotionHours_def)

lemma emptyEmotionHours_nth:
  "i < 24 \<Longrightarrow> emptyEmotionHours ! i = \<lparr>em_hour = i, em_hour_counts = [], em_hour_total = 0\<rparr>"
  by (simp add: emptyEmotionHours_def)

lemma lower_labels:
  "toLowerCase ''Happy'' = ''happy''" "toLowerCase ''happy'' = ''happy''"
  "toLowerCase ''sad'' = ''sad''" "toLowerCase ''Sad'' = ''sad''"
  by (simp_all add: toLowerCase_def lowerChar_def)

lemma word_labels:
  "map_of Object_prototype ''happy'' = None" "map_of Object_prototype ''sad'' = None"
  "arrayIndex ''happy'' = None" "arrayIndex ''sad'' = None"
  by (simp_all add: Object_prototype_def arrayIndex_def)

lemmas scenarioD_eval = computeEmotionDayStats_def scenarioD_def Object_values_def emotionAt_def
  countEmotion_def new_Date_def viewer_simps viewer_key1 viewer_key2 viewer_hour1 viewer_hour2
  emptyEmotionHours_length emptyEmotionHours_nth Let_def lower_labels findDominant_def
  scanDominant_def without_def increment_def getProperty_def orZeroPlusOne_def word_labels
  Object_entries_def List.map_filter_simps

lemma scenarioD_stats:
  "\<exists>st. computeEmotionDayStats viewer scenarioD ''2024-05-01'' = Inr st \<and> em_total st = 4
     \<and> counts st = [(''happy'', Number 2), (''sad'', Number 2)] \<and> dominant st = ''happy''"
  by (simp add: scenarioD_eval)

lemma scenarioD_without_stats:
  "\<exists>st. computeEmotionDayStats viewer (without ''e2'' scenarioD) ''2024-05-01'' = Inr st
     \<and> em_total st = 3 \<and> counts st = [(''happy'', Number 2), (''sad'', Number 1)]"
  by (simp add: scenarioD_eval)

lemma scenarioB_without_stats:
  "\<exists>st. computeDayStats viewer (without ''a2'' scenarioB) ''2024-05-01'' = Inr st \<and> total st = 1
     \<and> drowsy st = 1 \<and> yawn st = 0"
  by (simp add: scenarioB_eval without_def)

text \<open>
  Scenario B without the yawning alert \<open>a2\<close>, and Scenario D without the record
  \<open>e2\<close>, on 2024-05-01.
\<close>

theorem deletion_monotone_witness:
  "\<exists>a b a' b'.
     computeDayStats viewer scenarioB ''2024-05-01'' = Inr b
     \<and> computeDayStats viewer (without ''a2'' scenarioB) ''2024-05-01'' = Inr a
     \<and> total b = 2 \<and> total a = 1 \<and> yawn b = 1 \<and> yawn a = 0
     \<and> drowsy a \<le> drowsy b \<and> h_total (hourly a ! 10) \<le> h_total (hourly b ! 10)
     \<and> computeEmotionDayStats viewer scenarioD ''2024-05-01'' = Inr b'
     \<and> computeEmotionDayStats viewer (without ''e2'' scenarioD) ''2024-05-01'' = Inr a'
     \<and> em_total b' = 4 \<and> em_total a' = 3
     \<and> countOf (counts a') ''sad'' \<le> countOf (counts b') ''sad''"
proof -
  obtain b where b: "computeDayStats viewer scenarioB ''2024-05-01'' = Inr b"
    and vb: "total b = 2" "yawn b = 1" using scenarioB_stats by blast
  obtain a0 where a0: "computeDayStats viewer (without ''a2'' scenarioB) ''2024-05-01'' = Inr a0"
    and va: "total a0 = 1" "yawn a0 = 0" using scenarioB_without_stats by blast
  obtain b' where b': "computeEmotionDayStats viewer scenarioD ''2024-05-01'' = Inr b'"
    and vb': "em_total b' = 4" using scenarioD_stats by blast
  obtain a0' where a0': "computeEmotionDayStats viewer (without ''e2'' scenarioD) ''2024-05-01'' = Inr a0'"
    and va': "em_total a0' = 3" using scenarioD_without_stats by blast
  note th = deletion_monotone [of "''2024-05-01''" viewer scenarioB scenarioD "''a2''"]
  have "drowsy a0 \<le> drowsy b \<and> h_total (hourly a0 ! 10) \<le> h_total (hourly b ! 10)"
    using th b a0 by fastforce
  moreover have "countOf (counts a0') ''sad'' \<le> countOf (counts b') ''sad''"
    using deletion_monotone [of "''2024-05-01''" viewer scenarioB scenarioD "''e2''"] b' a0'
    by fastforce
  ultimately show ?thesis using b vb a0 va b' vb' a0' va' by blast
qed

section \<open>The dominant emotion\<close>



























section \<open>The days of the day picker: the claim\<close>

lemma set_set_add: "set (set_add x xs) = insert x (set xs)"
  by (auto simp add: set_add_def)

lemma distinct_set_add: "distinct xs \<Longrightarrow> distinct (set_add x xs)"
  by (simp add: set_add_def)

lemma foldl_addDay:
  "set (foldl (addDay rt) acc xs) = set acc \<union> set (recordKeys rt xs)
   \<and> (distinct acc \<longrightarrow> distinct (foldl (addDay rt) acc xs))"
proof (induction xs arbitrary: acc)
  case Nil
  show ?case by (simp add: recordKeys_def)
next
  case (Cons x xs)
  show ?case
    using Cons.IH [of "addDay rt acc x"]
    by (auto simp add: addDay_def recordKeys_def set_set_add distinct_set_add)
qed

lemma daySet_props:
  "set (foldl (addDay rt) (foldl (addDay rt) [] (Object_values A)) (Object_values E))
     = set (dayKeys rt A E)"
  "distinct (foldl (addDay rt) (foldl (addDay rt) [] (Object_values A)) (Object_values E))"
proof -
  let ?d1 = "foldl (addDay rt) [] (Object_values A)"
  have 1: "set ?d1 = set (recordKeys rt (Object_values A))" "distinct ?d1"
    using foldl_addDay [of rt "[]" "Object_values A"] by simp_all
  show "set (foldl (addDay rt) ?d1 (Object_values E)) = set (dayKeys rt A E)"
    using foldl_addDay [of rt ?d1 "Object_values E"] 1 by (simp add: dayKeys_def)
  show "distinct (foldl (addDay rt) ?d1 (Object_values E))"
    using foldl_addDay [of rt ?d1 "Object_values E"] 1 by simp
qed

lemma sort_daySet:
  "sort (foldl (addDay rt) (foldl (addDay rt) [] (Object_values A)) (Object_values E))
     = sort (remdups (dayKeys rt A E))"
  by (rule sorted_distinct_set_unique) (simp_all add: daySet_props)

lemma getAvailableDays_eq:
  "getAvailableDays rt A E =
     (if todayKey rt \<in> set (dayKeys rt A E) then rev (sort (remdups (dayKeys rt A E)))
      else todayKey rt # rev (sort (remdups (dayKeys rt A E))))"
  by (simp add: getAvailableDays_def Let_def sort_daySet daySet_props)







lemma viewer_today: "todayKey viewer = ''2024-05-01''"
  by (simp add: todayKey_def viewer_simps viewer_key1)




section \<open>The mirror on a channel error\<close>

text \<open>
  C9. The error callback of \<open>useFirebaseAlerts\<close> and of \<open>useFirebaseEmotions\<close>
  records the message and clears \<open>loading\<close>; the held mapping and the latest record
  are what they were. After a snapshot and then an error, the mapping of the snapshot is
  still held, next to the error.
\<close>

theorem error_keeps_mirror:
  "alerts (useFirebaseAlerts rt (ChannelError msg) s) = alerts s
   \<and> latestAlert (useFirebaseAlerts rt (ChannelError msg) s) = latestAlert s
   \<and> error (useFirebaseAlerts rt (ChannelError msg) s) = Some msg
   \<and> loading (useFirebaseAlerts rt (ChannelError msg) s) = False
   \<and> alerts (useFirebaseAlerts rt (ChannelError msg) (useFirebaseAlerts rt (Snapshot (Some m)) s)) = m
   \<and> emotions (useFirebaseEmotions rt (ChannelError msg) s') = emotions s'
   \<and> latestEmotion (useFirebaseEmotions rt (ChannelError msg) s') = latestEmotion s'
   \<and> error (useFirebaseEmotions rt (ChannelError msg) s') = Some msg
   \<and> loading (useFirebaseEmotions rt (ChannelError msg) s') = False
   \<and> emotions (useFirebaseEmotions rt (ChannelError msg)
        (useFirebaseEmotions rt (Snapshot (Some m')) s')) = m'"
  by (simp add: useFirebaseAlerts_def useFirebaseEmotions_def subscribeToAlerts_def
        subscribeToEmotions_def)

text \<open>
  Scenario B arrives as a snapshot, then the channel reports \<open>permission_denied\<close>.
\<close>

theorem error_keeps_mirror_witness:
  "alerts (useFirebaseAlerts viewer (ChannelError ''permission_denied'')
     (useFirebaseAlerts viewer (Snapshot (Some scenarioB)) initialAlertsHook)) = scenarioB
   \<and> error (useFirebaseAlerts viewer (ChannelError ''permission_denied'')
     (useFirebaseAlerts viewer (Snapshot (Some scenarioB)) initialAlertsHook))
       = Some ''permission_denied''"
  using error_keeps_mirror [of viewer "''permission_denied''" initialAlertsHook scenarioB
      initialEmotionsHook "[]"]
    error_keeps_mirror [of viewer "''permission_denied''"
      "useFirebaseAlerts viewer (Snapshot (Some scenarioB)) initialAlertsHook" scenarioB
      initialEmotionsHook "[]"]
  by blast

section \<open>An unparsable timestamp\<close>

text \<open>
  Both day functions read \<open>hours[h]\<close> with the hour of the parsed timestamp. They throw
  exactly when the day key is the key of the Invalid Date and a counted record carries a
  timestamp that does not parse; the key of a valid date never starts with \<open>N\<close>.
\<close>

lemma digits_head: "digits n \<noteq> [] \<and> hd (digits n) \<in> set ''0123456789''"
proof (induction n rule: digits.induct)
  case (1 n)
  show ?case
  proof (cases "n < 10")
    case True
    then have "n \<in> {0, 1, 2, 3, 4, 5, 6, 7, 8, 9}" by auto
    then show ?thesis by (subst digits.simps, subst (2) digits.simps) auto
  next
    case False
    then show ?thesis using 1 by (subst digits.simps, subst (2) digits.simps) simp
  qed
qed

lemma numberToString_head: "numberToString (Some i) \<noteq> [] \<and> hd (numberToString (Some i)) \<noteq> CHR ''N''"
  using digits_head [of "nat i"] by (auto simp add: numberToString_def)

lemma formatDateKey_valid: "formatDateKey rt (Some t) \<noteq> ''NaN-NaN-NaN''"
proof -
  obtain y where y: "getFullYear rt (Some t) = Some y" by (simp add: getFullYear_def)
  obtain r where "formatDateKey rt (Some t) = numberToString (Some y) @ r"
    by (simp add: formatDateKey_def y Let_def)
  moreover obtain c cs where "numberToString (Some y) = c # cs" "c \<noteq> CHR ''N''"
    using numberToString_head [of y] by (cases "numberToString (Some y)") auto
  ultimately show ?thesis by auto
qed

lemma countAlert_throws_iff:
  assumes "length (hourly st) = 24"
  shows "countAlert rt dayKey st a = Inl TypeError \<longleftrightarrow>
         dayKey = ''NaN-NaN-NaN'' \<and> timestamp a \<noteq> [] \<and> new_Date rt (timestamp a) = None"
proof (cases "timestamp a = [] \<or> formatDateKey rt (new_Date rt (timestamp a)) \<noteq> dayKey")
  case True
  then show ?thesis
    using countAlert_skip [of a rt dayKey st] formatDateKey_invalid [of rt] by auto
next
  case False
  show ?thesis
  proof (cases "new_Date rt (timestamp a)")
    case None
    then show ?thesis
      using False countAlert_throw [of a rt dayKey st] formatDateKey_invalid [of rt]
      by (auto simp add: getHours_def)
  next
    case (Some t)
    obtain h where h: "getHours rt (new_Date rt (timestamp a)) = Some h"
      using Some by (simp add: getHours_def)
    have "h < length (hourly st)" using getHours_range [OF h] assms by simp
    then show ?thesis using False Some h countAlert_hit [of a rt dayKey h st] by auto
  qed
qed

lemma countAlert_keeps_length:
  assumes "countAlert rt dayKey st a = Inr st'"
  shows "length (hourly st') = length (hourly st)"
proof (cases rule: countAlert_cases [of rt dayKey st a])
  case skip
  then show ?thesis using assms by simp
next
  case throw
  then show ?thesis using assms by simp
next
  case (hit h)
  show ?thesis using assms unfolding countAlert_hit [OF hit] by auto
qed

lemma forEach_throws_iff:
  assumes bad: "\<And>s x. I s \<Longrightarrow> (f s x = Inl TypeError \<longleftrightarrow> bad x)"
    and keep: "\<And>s x s'. I s \<Longrightarrow> f s x = Inr s' \<Longrightarrow> I s'"
  shows "I s \<Longrightarrow> (forEach f s xs = Inl TypeError \<longleftrightarrow> (\<exists>x\<in>set xs. bad x))"
proof (induction xs arbitrary: s)
  case Nil
  then show ?case by simp
next
  case (Cons x xs)
  show ?case
  proof (cases "f s x")
    case (Inl e)
    then have "f s x = Inl TypeError" by (cases e) simp
    then show ?thesis using bad [OF Cons.prems, of x] by simp
  next
    case (Inr s')
    then have nb: "\<not> bad x" using bad [OF Cons.prems, of x] by simp
    have "I s'" by (rule keep [OF Cons.prems Inr])
    from Cons.IH [OF this] show ?thesis using Inr nb by simp
  qed
qed

lemma computeDayStats_throws_iff:
  "computeDayStats rt M dayKey = Inl TypeError \<longleftrightarrow>
     dayKey = ''NaN-NaN-NaN''
     \<and> (\<exists>a\<in>set (Object_values M). timestamp a \<noteq> [] \<and> new_Date rt (timestamp a) = None)"
proof -
  have "forEach (countAlert rt dayKey) \<lparr>total = 0, drowsy = 0, yawn = 0, hourly = emptyHours\<rparr>
          (Object_values M) = Inl TypeError \<longleftrightarrow>
        (\<exists>a\<in>set (Object_values M).
           dayKey = ''NaN-NaN-NaN'' \<and> timestamp a \<noteq> [] \<and> new_Date rt (timestamp a) = None)"
    by (rule forEach_throws_iff [where I = "\<lambda>st. length (hourly st) = 24"])
       (simp_all add: countAlert_throws_iff countAlert_keeps_length emptyHours_def)
  then show ?thesis by (auto simp add: computeDayStats_def)
qed
lemma countEmotion_throws_iff:
  assumes "length (em_hourly st) = 24"
  shows "countEmotion rt dayKey st e = Inl TypeError \<longleftrightarrow>
         dayKey = ''NaN-NaN-NaN'' \<and> timestamp e \<noteq> [] \<and> emotion e \<noteq> []
         \<and> new_Date rt (timestamp e) = None"
proof (cases rule: countEmotion_cases [of e rt dayKey st])
  case skip
  then show ?thesis using formatDateKey_invalid [of rt] by auto
next
  case (hit h)
  then have "new_Date rt (timestamp e) \<noteq> None" by (auto simp add: getHours_def)
  then show ?thesis unfolding countEmotion_hit [OF hit] by simp
next
  case throw
  have "new_Date rt (timestamp e) = None"
  proof (rule ccontr)
    assume "new_Date rt (timestamp e) \<noteq> None"
    then obtain h where h: "getHours rt (new_Date rt (timestamp e)) = Some h"
      by (auto simp add: getHours_def)
    have "h < length (em_hourly st)" using getHours_range [OF h] assms by simp
    then show False using throw(4) h by simp
  qed
  then show ?thesis using throw formatDateKey_invalid [of rt] by auto
qed

lemma computeEmotionDayStats_throws_iff:
  "computeEmotionDayStats rt M dayKey = Inl TypeError \<longleftrightarrow>
     dayKey = ''NaN-NaN-NaN''
     \<and> (\<exists>e\<in>set (Object_values M). timestamp e \<noteq> [] \<and> emotion e \<noteq> []
           \<and> new_Date rt (timestamp e) = None)"
proof -
  have "forEach (countEmotion rt dayKey)
          \<lparr>em_total = 0, counts = [], em_hourly = emptyEmotionHours, dominant = ''neutral''\<rparr>
          (Object_values M) = Inl TypeError \<longleftrightarrow>
        (\<exists>e\<in>set (Object_values M).
           dayKey = ''NaN-NaN-NaN'' \<and> timestamp e \<noteq> [] \<and> emotion e \<noteq> []
           \<and> new_Date rt (timestamp e) = None)"
    by (rule forEach_throws_iff [where I = "\<lambda>st. length (em_hourly st) = 24"])
       (simp_all add: countEmotion_throws_iff countEmotion_length emptyEmotionHours_def)
  then show ?thesis by (auto simp add: computeEmotionDayStats_def split: sum.splits)
qed

text \<open>
  A timestamp that does not parse gives the day picker the key \<open>NaN-NaN-NaN\<close>, here at
  index 0, the day selected first; \<open>computeDayStats\<close> for that key reads
  \<open>hours[NaN].total\<close> and throws.
\<close>

lemma invalid_timestamp_crash:
  "getAvailableDays viewer [(''a1'', alertAt ''drowsiness'' ''garbage'')] scenarioD
     = [''NaN-NaN-NaN'', ''2024-05-01'']
   \<and> computeDayStats viewer [(''a1'', alertAt ''drowsiness'' ''garbage'')] ''NaN-NaN-NaN''
     = Inl TypeError"
proof -
  have k: "dayKeys viewer [(''a1'', alertAt ''drowsiness'' ''garbage'')] scenarioD
      = ''NaN-NaN-NaN'' # replicate 4 ''2024-05-01''"
    by (simp add: dayKeys_def recordKeys_def scenarioD_eval alertAt_def formatDateKey_invalid
          numeral_eq_Suc)
  have 1: "getAvailableDays viewer [(''a1'', alertAt ''drowsiness'' ''garbage'')] scenarioD
     = [''NaN-NaN-NaN'', ''2024-05-01'']"
    by (simp add: getAvailableDays_eq k viewer_today numeral_eq_Suc less_eq_char_def less_char_def)
  have 2: "computeDayStats viewer [(''a1'', alertAt ''drowsiness'' ''garbage'')] ''NaN-NaN-NaN''
     = Inl TypeError"
    by (simp add: scenarioB_eval formatDateKey_invalid getHours_def)
  show ?thesis using 1 2 by blast
qed

end
